theory Spec2Isabelle
  imports Main
begin

section \<open>Values at the request boundary\<close>

text \<open>
  The handlers of \<^verbatim>\<open>app.py\<close> read their payload with \<^verbatim>\<open>request.get_json()\<close>. The
  parsed payload is a Python value built from \<^verbatim>\<open>None\<close>, booleans, integers, strings, lists
  and dicts. A dict is kept as an association list that is read with \<open>map_of\<close>, the way
  \<^verbatim>\<open>d[k]\<close>, \<^verbatim>\<open>k in d\<close> and \<^verbatim>\<open>d.get(k)\<close> read it. JSON numbers with a fraction or an
  exponent become Python floats; they are not part of this model. A string stands for
  its UTF-8 encoding.
\<close>

datatype json =
    JNull
  | JBool bool
  | JInt int
  | JStr string
  | JArr "json list"
  | JObj "(string \<times> json) list"

text \<open>Python truthiness, as used by \<^verbatim>\<open>if student_ans and ...\<close>.\<close>

fun truthy :: "json \<Rightarrow> bool" where
  "truthy JNull = False"
| "truthy (JBool b) = b"
| "truthy (JInt n) = (n \<noteq> 0)"
| "truthy (JStr s) = (s \<noteq> [])"
| "truthy (JArr xs) = (xs \<noteq> [])"
| "truthy (JObj kvs) = (kvs \<noteq> [])"

text \<open>
  \<^verbatim>\<open>dict.get(key)\<close> returns \<^verbatim>\<open>None\<close> for an absent key; a key bound to \<^verbatim>\<open>null\<close> gives
  \<^verbatim>\<open>None\<close> as well.
\<close>

definition dict_get :: "(string \<times> json) list \<Rightarrow> string \<Rightarrow> json" where
  "dict_get kvs key = (case map_of kvs key of None \<Rightarrow> JNull | Some v \<Rightarrow> v)"

text \<open>\<^verbatim>\<open>str(n)\<close> for a primary key, which is a non-negative integer.\<close>

definition digit_char :: "nat \<Rightarrow> char" where
  "digit_char n = ''0123456789'' ! n"

fun py_str :: "nat \<Rightarrow> string" where
  "py_str n = (if n < 10 then [digit_char n] else py_str (n div 10) @ [digit_char (n mod 10)])"

declare py_str.simps [simp del]

text \<open>
  Timestamps are naive datetimes; the code only compares them with \<^verbatim>\<open><\<close> and stores
  them, so an integer count of clock ticks stands for one.
\<close>

type_synonym datetime = int

section \<open>Tables\<close>

text \<open>
  One record per SQLAlchemy model. The primary key \<^verbatim>\<open>id\<close> of each model carries the
  model's name here, and foreign keys of the same name in two models are told apart by a
  prefix. \<^verbatim>\<open>password_hash\<close> is left out: no handler modelled below reads it.
\<close>

record user =
  uid :: nat
  email :: string
  role :: string

record quiz =
  quiz_pk :: nat
  title :: string
  start_time :: datetime
  duration_minutes :: int
  teacher_id :: nat

record question =
  question_pk :: nat
  question_quiz_id :: nat
  question_text :: string
  option_a :: string
  option_b :: string
  option_c :: string
  option_d :: string
  correct_answer :: string

record attempt =
  attempt_pk :: nat
  attempt_quiz_id :: nat
  attempt_student_id :: nat
  score :: "int option"
  total_questions :: "int option"
  started_at :: datetime
  finished_at :: "datetime option"
  finished :: bool

text \<open>
  \<^verbatim>\<open>question_number\<close> receives the payload's value unconverted. SQLite types values and
  not columns, so the \<^verbatim>\<open>INTEGER\<close> column holds an integer, or a text that does not read
  as a number, or the floating-point number that a text reads as, kept here as that
  text.
\<close>

datatype sql_value =
    SqlInteger int
  | SqlReal string
  | SqlText string

record proctor_log =
  log_pk :: nat
  log_quiz_id :: nat
  log_student_id :: nat
  event_type :: string
  question_number :: sql_value
  timestamp :: datetime

record db =
  quizzes :: "quiz list"
  questions :: "question list"
  attempts :: "attempt list"
  proctor_logs :: "proctor_log list"

definition empty_db :: db where
  "empty_db = \<lparr>quizzes = [], questions = [], attempts = [], proctor_logs = []\<rparr>"

text \<open>
  The responses of the handlers. Each constructor stands for the error responses of the
  code listed with it; the names are those of the specification's taxonomy.
  \<^item> \<open>AuthorizationError\<close>: status 403 with \<^verbatim>\<open>Not authorized\<close> (role or ownership).
  \<^item> \<open>NotFoundError\<close>: status 404.
  \<^item> \<open>ConflictError\<close>: status 400 with \<^verbatim>\<open>Quiz already attempted\<close>.
  \<^item> \<open>TimingError\<close>: status 403 with \<^verbatim>\<open>Quiz has not started yet\<close>.
  \<^item> \<open>ValidationError\<close>: status 400 from an \<^verbatim>\<open>except Exception\<close> branch (after
    \<^verbatim>\<open>db.session.rollback()\<close>), or from one of the upload checks.
  \<^item> \<open>EncodingError\<close>: status 400 from \<^verbatim>\<open>except UnicodeDecodeError\<close>.
  \<^item> \<open>PersistenceError\<close>: status 500 from the delete handler.
  \<^item> \<open>UnhandledException\<close>: an exception raised outside every \<^verbatim>\<open>try\<close>.
\<close>

datatype error =
    AuthorizationError
  | NotFoundError
  | ConflictError
  | TimingError
  | ValidationError
  | EncodingError
  | PersistenceError
  | UnhandledException

text \<open>
  \<^verbatim>\<open>db.session.get(Quiz, quiz_id)\<close> and the primary key SQLite gives to a new row of a
  table whose keys are \<open>ids\<close>.
\<close>

definition get_quiz :: "db \<Rightarrow> nat \<Rightarrow> quiz option" where
  "get_quiz d quiz_id = find (\<lambda>q. quiz_pk q = quiz_id) (quizzes d)"

definition fresh_id :: "nat list \<Rightarrow> nat" where
  "fresh_id ids = Suc (fold max ids 0)"

definition quiz_questions :: "db \<Rightarrow> nat \<Rightarrow> question list" where
  "quiz_questions d quiz_id = filter (\<lambda>q. question_quiz_id q = quiz_id) (questions d)"

section \<open>Starting an attempt\<close>

definition options_view :: "question \<Rightarrow> json" where
  "options_view q = JObj [(''A'', JStr (option_a q)), (''B'', JStr (option_b q)),
                          (''C'', JStr (option_c q)), (''D'', JStr (option_d q))]"

definition student_question_view :: "question \<Rightarrow> json" where
  "student_question_view q =
     JObj [(''id'', JInt (int (question_pk q))), (''text'', JStr (question_text q)),
           (''options'', options_view q)]"

definition new_attempt :: "db \<Rightarrow> nat \<Rightarrow> nat \<Rightarrow> datetime \<Rightarrow> attempt" where
  "new_attempt d quiz_id student_id now =
     \<lparr>attempt_pk = fresh_id (map attempt_pk (attempts d)),
      attempt_quiz_id = quiz_id, attempt_student_id = student_id,
      score = None, total_questions = None, started_at = now,
      finished_at = None, finished = False\<rparr>"

text \<open>
  \<^verbatim>\<open>start_quiz_attempt(quiz_id)\<close>. \<open>utcnow\<close> is the clock read by the time check and
  \<open>now\<close> the one read by the column default of \<^verbatim>\<open>started_at\<close>. The \<^verbatim>\<open>except\<close> branch
  of the handler is reached only when the storage layer raises, which this model does not
  do.
\<close>

definition start_quiz_attempt ::
  "db \<Rightarrow> user \<Rightarrow> nat \<Rightarrow> datetime \<Rightarrow> datetime \<Rightarrow> (error + json) \<times> db" where
  "start_quiz_attempt d current_user quiz_id utcnow now =
     (if role current_user \<noteq> ''student'' then (Inl AuthorizationError, d)
      else case get_quiz d quiz_id of
        None \<Rightarrow> (Inl NotFoundError, d)
      | Some quiz \<Rightarrow>
          (case find (\<lambda>a. attempt_quiz_id a = quiz_pk quiz
                         \<and> attempt_student_id a = uid current_user) (attempts d) of
             Some attempt \<Rightarrow> (Inl ConflictError, d)
           | None \<Rightarrow>
               if utcnow < start_time quiz then (Inl TimingError, d)
               else
                 let att = new_attempt d (quiz_pk quiz) (uid current_user) now;
                     d' = d\<lparr>attempts := attempts d @ [att]\<rparr>;
                     question_list = map student_question_view (quiz_questions d' (quiz_pk quiz))
                 in (Inr (JObj [(''attemptId'', JInt (int (attempt_pk att))),
                                (''quizTitle'', JStr (title quiz)),
                                (''duration'', JInt (duration_minutes quiz)),
                                (''questions'', JArr question_list)]), d')))"

section \<open>Submitting an attempt\<close>

text \<open>
  The row that \<^verbatim>\<open>.first()\<close> returned is the one the handler writes to: the first element
  of the table that satisfies the filter.
\<close>

fun update_first :: "('a \<Rightarrow> bool) \<Rightarrow> ('a \<Rightarrow> 'a) \<Rightarrow> 'a list \<Rightarrow> 'a list" where
  "update_first P f [] = []"
| "update_first P f (x # xs) = (if P x then f x # xs else x # update_first P f xs)"

text \<open>
  The grading loop. \<^verbatim>\<open>student_answers.get\<close> raises \<^verbatim>\<open>AttributeError\<close> when the value
  under \<^verbatim>\<open>answers\<close> is not a dict; the handler's \<^verbatim>\<open>except\<close> branch turns that into
  status 400. The comparison \<^verbatim>\<open>student_ans == q.correct_answer\<close> is between a payload value
  and a string. \<open>sc\<close> is the local \<^verbatim>\<open>score\<close>.
\<close>

fun grade :: "json \<Rightarrow> question list \<Rightarrow> int \<Rightarrow> error + int" where
  "grade student_answers [] sc = Inr sc"
| "grade student_answers (q # qs) sc =
     (case student_answers of
        JObj kvs \<Rightarrow>
          (let student_ans = dict_get kvs (py_str (question_pk q))
           in grade student_answers qs
                (if truthy student_ans \<and> student_ans = JStr (correct_answer q)
                 then sc + 1 else sc))
      | _ \<Rightarrow> Inl ValidationError)"

definition active_attempt :: "nat \<Rightarrow> nat \<Rightarrow> attempt \<Rightarrow> bool" where
  "active_attempt quiz_id student_id a =
     (attempt_quiz_id a = quiz_id \<and> attempt_student_id a = student_id \<and> finished a = False)"

definition finish_attempt :: "int \<Rightarrow> int \<Rightarrow> datetime \<Rightarrow> attempt \<Rightarrow> attempt" where
  "finish_attempt sc tot now a =
     a\<lparr>score := Some sc, total_questions := Some tot, finished := True,
       finished_at := Some now\<rparr>"

text \<open>
  \<^verbatim>\<open>submit_quiz_attempt(quiz_id)\<close> with \<open>data\<close> the value of \<^verbatim>\<open>request.get_json()\<close>.
  \<^verbatim>\<open>data.get('answers', {})\<close> stands before the \<^verbatim>\<open>try\<close>, so a payload that is not a
  dict raises past the handler.
\<close>

definition submit_quiz_attempt ::
  "db \<Rightarrow> user \<Rightarrow> nat \<Rightarrow> json \<Rightarrow> datetime \<Rightarrow> (error + json) \<times> db" where
  "submit_quiz_attempt d current_user quiz_id data now =
     (if role current_user \<noteq> ''student'' then (Inl AuthorizationError, d)
      else case find (active_attempt quiz_id (uid current_user)) (attempts d) of
        None \<Rightarrow> (Inl NotFoundError, d)
      | Some attempt \<Rightarrow>
          (case data of
             JObj kvs \<Rightarrow>
               (let student_answers = (case map_of kvs ''answers'' of
                                         None \<Rightarrow> JObj [] | Some v \<Rightarrow> v);
                    qs = quiz_questions d quiz_id;
                    tot = int (length qs)
                in case grade student_answers qs 0 of
                     Inl e \<Rightarrow> (Inl e, d)
                   | Inr sc \<Rightarrow>
                       (Inr (JObj [(''score'', JInt sc), (''totalQuestions'', JInt tot)]),
                        d\<lparr>attempts := update_first (active_attempt quiz_id (uid current_user))
                                        (finish_attempt sc tot now) (attempts d)\<rparr>))
           | _ \<Rightarrow> (Inl UnhandledException, d)))"

section \<open>Library functions\<close>

text \<open>
  Three functions of the libraries are taken as given: \<^verbatim>\<open>datetime.fromisoformat\<close>, whose
  result is the datetime as the \<^verbatim>\<open>DateTime\<close> column keeps it, \<^verbatim>\<open>int\<close> on a string, where
  \<open>None\<close> stands for the \<^verbatim>\<open>ValueError\<close> each of the two raises, and the conversion that
  SQLite's \<^verbatim>\<open>INTEGER\<close> column affinity applies to a text.
\<close>

record stdlib =
  fromisoformat :: "string \<Rightarrow> datetime option"
  int_of_str :: "string \<Rightarrow> int option"
  integer_affinity :: "string \<Rightarrow> sql_value"

section \<open>Binding payload values to columns\<close>

text \<open>
  What the storage layer does with a value handed to a \<^verbatim>\<open>nullable=False\<close> column at
  commit: \<^verbatim>\<open>None\<close> violates the constraint, a list or a dict cannot be bound, an integer
  outside the signed 64 bits of SQLite overflows, and each of them raises inside the
  handler's \<^verbatim>\<open>try\<close>. A \<^verbatim>\<open>String\<close> or \<^verbatim>\<open>Text\<close> column keeps a string as it is and an
  integer as its decimal text; an \<^verbatim>\<open>Integer\<close> column keeps an integer as it is and a
  string as the column affinity converts it. A boolean is bound as the integer 1 or 0.
\<close>

definition in_int64 :: "int \<Rightarrow> bool" where
  "in_int64 n = (- (2 ^ 63) \<le> n \<and> n < 2 ^ 63)"

definition str_int :: "int \<Rightarrow> string" where
  "str_int n = (if n < 0 then CHR ''-'' # py_str (nat (- n)) else py_str (nat n))"

fun bind_text :: "json \<Rightarrow> string option" where
  "bind_text JNull = None"
| "bind_text (JBool b) = Some (if b then ''1'' else ''0'')"
| "bind_text (JInt n) = (if in_int64 n then Some (str_int n) else None)"
| "bind_text (JStr s) = Some s"
| "bind_text (JArr xs) = None"
| "bind_text (JObj kvs) = None"

fun bind_integer :: "stdlib \<Rightarrow> json \<Rightarrow> sql_value option" where
  "bind_integer lib JNull = None"
| "bind_integer lib (JBool b) = Some (SqlInteger (if b then 1 else 0))"
| "bind_integer lib (JInt n) = (if in_int64 n then Some (SqlInteger n) else None)"
| "bind_integer lib (JStr s) = Some (integer_affinity lib s)"
| "bind_integer lib (JArr xs) = None"
| "bind_integer lib (JObj kvs) = None"

section \<open>Proctor log\<close>

text \<open>
  \<^verbatim>\<open>log_proctor_event(quiz_id)\<close>. Subscripting a payload that is not a dict raises
  \<^verbatim>\<open>TypeError\<close>, a missing key raises \<^verbatim>\<open>KeyError\<close>, both inside the \<^verbatim>\<open>try\<close>. Neither the
  quiz nor an attempt is looked up. The commit binds the two payload values and the
  \<^verbatim>\<open>quiz_id\<close> of the URL, which can be any non-negative integer; \<^verbatim>\<open>current_user\<close> is a
  row of the user table, so its id is one that is stored.
\<close>

definition log_proctor_event ::
  "stdlib \<Rightarrow> db \<Rightarrow> user \<Rightarrow> nat \<Rightarrow> json \<Rightarrow> datetime \<Rightarrow> (error + json) \<times> db" where
  "log_proctor_event lib d current_user quiz_id data now =
     (if role current_user \<noteq> ''student'' then (Inl AuthorizationError, d)
      else case data of
        JObj kvs \<Rightarrow>
          (case map_of kvs ''eventType'' of
             None \<Rightarrow> (Inl ValidationError, d)
           | Some et \<Rightarrow>
               (case map_of kvs ''questionNumber'' of
                  None \<Rightarrow> (Inl ValidationError, d)
                | Some qn \<Rightarrow>
                    (case bind_text et of
                       None \<Rightarrow> (Inl ValidationError, d)
                     | Some e \<Rightarrow>
                         (case bind_integer lib qn of
                            None \<Rightarrow> (Inl ValidationError, d)
                          | Some n \<Rightarrow>
                              if \<not> in_int64 (int quiz_id) then (Inl ValidationError, d)
                              else
                                (Inr (JObj [(''status'', JStr ''logged'')]),
                                 d\<lparr>proctor_logs := proctor_logs d @
                                    [\<lparr>log_pk = fresh_id (map log_pk (proctor_logs d)),
                                      log_quiz_id = quiz_id,
                                      log_student_id = uid current_user,
                                      event_type = e, question_number = n,
                                      timestamp = now\<rparr>]\<rparr>)))))
      | _ \<Rightarrow> (Inl ValidationError, d))"

section \<open>Quiz registry\<close>

text \<open>\<^verbatim>\<open>int(v)\<close> for a payload value; \<^verbatim>\<open>None\<close>, lists and dicts raise \<^verbatim>\<open>TypeError\<close>.\<close>

fun py_int :: "stdlib \<Rightarrow> json \<Rightarrow> int option" where
  "py_int lib JNull = None"
| "py_int lib (JBool b) = Some (if b then 1 else 0)"
| "py_int lib (JInt n) = Some n"
| "py_int lib (JStr s) = int_of_str lib s"
| "py_int lib (JArr xs) = None"
| "py_int lib (JObj kvs) = None"

text \<open>\<^verbatim>\<open>s.replace('Z', '+00:00')\<close>.\<close>

definition replace_Z :: "string \<Rightarrow> string" where
  "replace_Z s = concat (map (\<lambda>c. if c = CHR ''Z'' then ''+00:00'' else [c]) s)"

text \<open>
  The \<^verbatim>\<open>POST\<close> branch of \<^verbatim>\<open>manage_quizzes\<close>. Inside the \<^verbatim>\<open>try\<close>, in the order of
  evaluation: \<^verbatim>\<open>data['startTime']\<close> (\<^verbatim>\<open>TypeError\<close> for a payload that is not a dict,
  \<^verbatim>\<open>KeyError\<close>), \<^verbatim>\<open>.replace\<close> (\<^verbatim>\<open>AttributeError\<close> unless the value is a string),
  \<^verbatim>\<open>fromisoformat\<close>, \<^verbatim>\<open>data['title']\<close>, \<^verbatim>\<open>int(data['durationMinutes'])\<close>, and the commit,
  which binds the title and the duration. Every exception ends in the same \<^verbatim>\<open>except\<close>
  branch.
\<close>

definition manage_quizzes_POST ::
  "stdlib \<Rightarrow> db \<Rightarrow> user \<Rightarrow> json \<Rightarrow> (error + json) \<times> db" where
  "manage_quizzes_POST lib d current_user data =
     (if role current_user \<noteq> ''teacher'' then (Inl AuthorizationError, d)
      else case data of
        JObj kvs \<Rightarrow>
          (case map_of kvs ''startTime'' of
             Some (JStr s) \<Rightarrow>
               (case fromisoformat lib (replace_Z s) of
                  None \<Rightarrow> (Inl ValidationError, d)
                | Some st \<Rightarrow>
                    (case map_of kvs ''title'' of
                       None \<Rightarrow> (Inl ValidationError, d)
                     | Some t \<Rightarrow>
                         (case map_of kvs ''durationMinutes'' of
                            None \<Rightarrow> (Inl ValidationError, d)
                          | Some dm \<Rightarrow>
                              (case py_int lib dm of
                                 None \<Rightarrow> (Inl ValidationError, d)
                               | Some dur \<Rightarrow>
                                   (case bind_text t of
                                      None \<Rightarrow> (Inl ValidationError, d)
                                    | Some ttl \<Rightarrow>
                                        if \<not> in_int64 dur then (Inl ValidationError, d)
                                        else
                                          (let new_quiz =
                                             \<lparr>quiz_pk = fresh_id (map quiz_pk (quizzes d)),
                                              title = ttl, start_time = st,
                                              duration_minutes = dur,
                                              teacher_id = uid current_user\<rparr>
                                           in (Inr (JObj [(''id'', JInt (int (quiz_pk new_quiz))),
                                                          (''title'', JStr ttl)]),
                                               d\<lparr>quizzes := quizzes d @ [new_quiz]\<rparr>)))))))
           | _ \<Rightarrow> (Inl ValidationError, d))
      | _ \<Rightarrow> (Inl ValidationError, d))"

definition teacher_question_view :: "question \<Rightarrow> json" where
  "teacher_question_view q =
     JObj [(''id'', JInt (int (question_pk q))), (''text'', JStr (question_text q)),
           (''options'', options_view q), (''correctAnswer'', JStr (correct_answer q))]"

text \<open>
  The \<^verbatim>\<open>GET\<close> branch of \<^verbatim>\<open>manage_quiz_details\<close>. The entries \<^verbatim>\<open>results\<close> and
  \<^verbatim>\<open>proctorLogs\<close> of the response, which join the user table and format timestamps, are
  not part of the modelled response.
\<close>

definition manage_quiz_details_GET :: "db \<Rightarrow> user \<Rightarrow> nat \<Rightarrow> error + json" where
  "manage_quiz_details_GET d current_user quiz_id =
     (case get_quiz d quiz_id of
        None \<Rightarrow> Inl NotFoundError
      | Some quiz \<Rightarrow>
          if role current_user = ''teacher'' \<and> teacher_id quiz \<noteq> uid current_user
          then Inl AuthorizationError
          else Inr (JObj [(''id'', JInt (int (quiz_pk quiz))), (''title'', JStr (title quiz)),
                          (''questions'',
                           JArr (map teacher_question_view (quiz_questions d (quiz_pk quiz))))]))"

text \<open>
  The \<^verbatim>\<open>DELETE\<close> branch: the relationships of \<^verbatim>\<open>Quiz\<close> cascade the delete to its
  questions, attempts and proctor logs.
\<close>

definition manage_quiz_details_DELETE :: "db \<Rightarrow> user \<Rightarrow> nat \<Rightarrow> (error + json) \<times> db" where
  "manage_quiz_details_DELETE d current_user quiz_id =
     (case get_quiz d quiz_id of
        None \<Rightarrow> (Inl NotFoundError, d)
      | Some quiz \<Rightarrow>
          if role current_user \<noteq> ''teacher'' then (Inl AuthorizationError, d)
          else if teacher_id quiz \<noteq> uid current_user then (Inl AuthorizationError, d)
          else (Inr (JObj [(''message'', JStr ''Quiz deleted successfully'')]),
                \<lparr>quizzes = filter (\<lambda>q. quiz_pk q \<noteq> quiz_pk quiz) (quizzes d),
                 questions = filter (\<lambda>q. question_quiz_id q \<noteq> quiz_pk quiz) (questions d),
                 attempts = filter (\<lambda>a. attempt_quiz_id a \<noteq> quiz_pk quiz) (attempts d),
                 proctor_logs = filter (\<lambda>l. log_quiz_id l \<noteq> quiz_pk quiz) (proctor_logs d)\<rparr>))"

section \<open>Question bank\<close>

text \<open>
  A \<^verbatim>\<open>Question\<close> object added to the session and not yet committed: its column values
  are still the Python values they were built from.
\<close>

record pending_question =
  p_text :: json
  p_option_a :: json
  p_option_b :: json
  p_option_c :: json
  p_option_d :: json
  p_correct_answer :: json

text \<open>The \<^verbatim>\<open>INSERT\<close> of one pending question; \<open>None\<close> when a value cannot be bound.\<close>

definition insert_question :: "db \<Rightarrow> nat \<Rightarrow> pending_question \<Rightarrow> db option" where
  "insert_question d quiz_id p =
     (if list_all (\<lambda>v. bind_text v \<noteq> None)
           [p_text p, p_option_a p, p_option_b p, p_option_c p, p_option_d p,
            p_correct_answer p]
      then Some (d\<lparr>questions := questions d @
                    [\<lparr>question_pk = fresh_id (map question_pk (questions d)),
                      question_quiz_id = quiz_id,
                      question_text = the (bind_text (p_text p)),
                      option_a = the (bind_text (p_option_a p)),
                      option_b = the (bind_text (p_option_b p)),
                      option_c = the (bind_text (p_option_c p)),
                      option_d = the (bind_text (p_option_d p)),
                      correct_answer = the (bind_text (p_correct_answer p))\<rparr>]\<rparr>)
      else None)"

fun insert_questions :: "db \<Rightarrow> nat \<Rightarrow> pending_question list \<Rightarrow> db option" where
  "insert_questions d quiz_id [] = Some d"
| "insert_questions d quiz_id (p # ps) =
     (case insert_question d quiz_id p of
        None \<Rightarrow> None
      | Some d' \<Rightarrow> insert_questions d' quiz_id ps)"

text \<open>
  \<^verbatim>\<open>add_question_manual(quiz_id)\<close>. The two \<^verbatim>\<open>all(key in ...)\<close> checks raise
  \<^verbatim>\<open>ValueError\<close>. When the payload, or the value under \<^verbatim>\<open>options\<close>, is not a dict, the
  membership tests or the subscripts that follow raise, so that every such request ends
  in the \<^verbatim>\<open>except\<close> branch as well. The value under \<^verbatim>\<open>correctAnswer\<close> is stored as it
  comes.
\<close>

definition add_question_manual ::
  "db \<Rightarrow> user \<Rightarrow> nat \<Rightarrow> json \<Rightarrow> (error + json) \<times> db" where
  "add_question_manual d current_user quiz_id data =
     (if role current_user \<noteq> ''teacher'' then (Inl AuthorizationError, d)
      else case get_quiz d quiz_id of
        None \<Rightarrow> (Inl NotFoundError, d)
      | Some quiz \<Rightarrow>
          if teacher_id quiz \<noteq> uid current_user then (Inl NotFoundError, d)
          else
            (case data of
               JObj kvs \<Rightarrow>
                 if \<not> list_all (\<lambda>key. map_of kvs key \<noteq> None)
                         [''text'', ''options'', ''correctAnswer'']
                 then (Inl ValidationError, d)
                 else
                   (case dict_get kvs ''options'' of
                      JObj opts \<Rightarrow>
                        if \<not> list_all (\<lambda>key. map_of opts key \<noteq> None)
                                [''A'', ''B'', ''C'', ''D'']
                        then (Inl ValidationError, d)
                        else
                          (case insert_question d (quiz_pk quiz)
                                  \<lparr>p_text = dict_get kvs ''text'',
                                   p_option_a = dict_get opts ''A'',
                                   p_option_b = dict_get opts ''B'',
                                   p_option_c = dict_get opts ''C'',
                                   p_option_d = dict_get opts ''D'',
                                   p_correct_answer = dict_get kvs ''correctAnswer''\<rparr> of
                             None \<Rightarrow> (Inl ValidationError, d)
                           | Some d' \<Rightarrow>
                               (Inr (JObj [(''id'', JInt (int (question_pk (last (questions d'))))),
                                           (''text'', JStr (question_text (last (questions d'))))]),
                                d'))
                    | _ \<Rightarrow> (Inl ValidationError, d))
             | _ \<Rightarrow> (Inl ValidationError, d)))"

text \<open>
  A row of \<^verbatim>\<open>csv.DictReader\<close>: a dict whose keys are the header's field names. The value
  of a field that a short line leaves out is \<^verbatim>\<open>None\<close>.
\<close>

type_synonym row = "string \<Rightarrow> string option option"

definition csv_columns :: "string list" where
  "csv_columns = [''question_text'', ''option_a'', ''option_b'', ''option_c'', ''option_d'',
                  ''correct_answer'']"

definition cell :: "row \<Rightarrow> string \<Rightarrow> json" where
  "cell r key = (case r key of Some (Some s) \<Rightarrow> JStr s | _ \<Rightarrow> JNull)"

text \<open>
  \<^verbatim>\<open>str.upper\<close> on the letters of ASCII. Other bytes stay as they are: no other character
  has one of \<^verbatim>\<open>A\<close> to \<^verbatim>\<open>D\<close> as its upper case, so the membership test that follows
  decides the same.
\<close>

definition upper_char :: "char \<Rightarrow> char" where
  "upper_char c =
     (case map_of (zip ''abcdefghijklmnopqrstuvwxyz'' ''ABCDEFGHIJKLMNOPQRSTUVWXYZ'') c of
        None \<Rightarrow> c | Some u \<Rightarrow> u)"

definition upper :: "string \<Rightarrow> string" where
  "upper s = map upper_char s"

text \<open>
  The loop over the rows; \<open>pending\<close> holds the questions added to the session so far.
  \<^verbatim>\<open>row['correct_answer'].upper()\<close> raises \<^verbatim>\<open>AttributeError\<close> on \<^verbatim>\<open>None\<close>.
\<close>

fun csv_loop :: "row list \<Rightarrow> pending_question list \<Rightarrow> error + pending_question list" where
  "csv_loop [] pending = Inr pending"
| "csv_loop (r # rows) pending =
     (if \<not> list_all (\<lambda>key. r key \<noteq> None) csv_columns then Inl ValidationError
      else case r ''correct_answer'' of
        Some (Some raw) \<Rightarrow>
          (let correct_ans = upper raw
           in if correct_ans \<notin> set [''A'', ''B'', ''C'', ''D''] then Inl ValidationError
              else csv_loop rows
                     (pending @
                      [\<lparr>p_text = cell r ''question_text'',
                        p_option_a = cell r ''option_a'',
                        p_option_b = cell r ''option_b'',
                        p_option_c = cell r ''option_c'',
                        p_option_d = cell r ''option_d'',
                        p_correct_answer = JStr correct_ans\<rparr>]))
      | _ \<Rightarrow> Inl ValidationError)"

text \<open>
  The uploaded file: its name and, when its bytes decode as UTF-8, the rows the reader
  yields from it.
\<close>

record upload =
  filename :: string
  content :: "row list option"

definition endswith :: "string \<Rightarrow> string \<Rightarrow> bool" where
  "endswith s suf = (length suf \<le> length s \<and> drop (length s - length suf) s = suf)"

text \<open>
  \<^verbatim>\<open>add_questions_csv(quiz_id)\<close>; \<open>file\<close> is \<open>None\<close> when the request has no part named
  \<^verbatim>\<open>file\<close>. The commit comes after the loop, and every exception rolls the session back.
\<close>

definition add_questions_csv ::
  "db \<Rightarrow> user \<Rightarrow> nat \<Rightarrow> upload option \<Rightarrow> (error + json) \<times> db" where
  "add_questions_csv d current_user quiz_id file =
     (if role current_user \<noteq> ''teacher'' then (Inl AuthorizationError, d)
      else case get_quiz d quiz_id of
        None \<Rightarrow> (Inl NotFoundError, d)
      | Some quiz \<Rightarrow>
          if teacher_id quiz \<noteq> uid current_user then (Inl NotFoundError, d)
          else
            (case file of
               None \<Rightarrow> (Inl ValidationError, d)
             | Some f \<Rightarrow>
                 if filename f = [] then (Inl ValidationError, d)
                 else if endswith (filename f) ''.csv'' then
                   (case content f of
                      None \<Rightarrow> (Inl EncodingError, d)
                    | Some rows \<Rightarrow>
                        (case csv_loop rows [] of
                           Inl e \<Rightarrow> (Inl e, d)
                         | Inr pending \<Rightarrow>
                             (case insert_questions d (quiz_pk quiz) pending of
                                None \<Rightarrow> (Inl ValidationError, d)
                              | Some d' \<Rightarrow>
                                  (Inr (JObj [(''message'',
                                          JStr (''Successfully added '' @ py_str (length pending)
                                                @ '' questions.''))]),
                                   d'))))
                 else (Inl ValidationError, d)))"

section \<open>Sequences of requests\<close>

datatype request =
    CreateQuiz user json
  | DeleteQuiz user nat
  | AddQuestion user nat json
  | ImportCsv user nat "upload option"
  | StartAttempt user nat datetime datetime
  | SubmitAttempt user nat json datetime
  | RecordEvent user nat json datetime

text \<open>The stored state after a request has been served.\<close>

fun step :: "stdlib \<Rightarrow> db \<Rightarrow> request \<Rightarrow> db" where
  "step lib d (CreateQuiz u data) = snd (manage_quizzes_POST lib d u data)"
| "step lib d (DeleteQuiz u quiz_id) = snd (manage_quiz_details_DELETE d u quiz_id)"
| "step lib d (AddQuestion u quiz_id data) = snd (add_question_manual d u quiz_id data)"
| "step lib d (ImportCsv u quiz_id file) = snd (add_questions_csv d u quiz_id file)"
| "step lib d (StartAttempt u quiz_id utcnow now) =
     snd (start_quiz_attempt d u quiz_id utcnow now)"
| "step lib d (SubmitAttempt u quiz_id data now) =
     snd (submit_quiz_attempt d u quiz_id data now)"
| "step lib d (RecordEvent u quiz_id data now) =
     snd (log_proctor_event lib d u quiz_id data now)"

definition attempt_key :: "attempt \<Rightarrow> nat \<times> nat" where
  "attempt_key a = (attempt_quiz_id a, attempt_student_id a)"

section \<open>Notions used by the properties\<close>

text \<open>
  The specification's condition for a question to count: the submitted answers hold, under
  the question's id, a value equal to the question's correct key.
\<close>

definition answered_correctly :: "(string \<times> json) list \<Rightarrow> question \<Rightarrow> bool" where
  "answered_correctly answers q =
     (map_of answers (py_str (question_pk q)) = Some (JStr (correct_answer q)))"

text \<open>
  The condition the handler's guard makes of it: the value is, besides, not the empty
  string.
\<close>

definition answered_correctly_nonempty :: "(string \<times> json) list \<Rightarrow> question \<Rightarrow> bool" where
  "answered_correctly_nonempty answers q =
     (answered_correctly answers q \<and> correct_answer q \<noteq> [])"

text \<open>
  A payload value that a column can take: a string, a boolean, or an integer within the
  signed 64 bits.
\<close>

definition storable_scalar :: "json \<Rightarrow> bool" where
  "storable_scalar v =
     (case v of JStr s \<Rightarrow> True | JBool b \<Rightarrow> True | JInt n \<Rightarrow> in_int64 n | _ \<Rightarrow> False)"

text \<open>The keys of a response object, in order, and the value under one of them.\<close>

definition json_keys :: "json \<Rightarrow> string list" where
  "json_keys v = (case v of JObj kvs \<Rightarrow> map fst kvs | _ \<Rightarrow> [])"

definition json_field :: "json \<Rightarrow> string \<Rightarrow> json option" where
  "json_field v key = (case v of JObj kvs \<Rightarrow> map_of kvs key | _ \<Rightarrow> None)"

text \<open>A question with its correct key blanked out.\<close>

definition redact :: "question \<Rightarrow> question" where
  "redact q = q\<lparr>correct_answer := []\<rparr>"

text \<open>
  The specification's reading of a CSV row: a column is there when the row has a value
  for it, and a row is valid when the six columns are there and the correct answer, in
  upper case, is one of A to D. \<open>row_columns\<close> is the question the specification expects
  for a row, without its primary key.
\<close>

definition present :: "row \<Rightarrow> string \<Rightarrow> bool" where
  "present r key = (case r key of Some (Some s) \<Rightarrow> True | _ \<Rightarrow> False)"

definition field_value :: "row \<Rightarrow> string \<Rightarrow> string" where
  "field_value r key = (case r key of Some (Some s) \<Rightarrow> s | _ \<Rightarrow> [])"

definition row_valid :: "row \<Rightarrow> bool" where
  "row_valid r = (list_all (present r) csv_columns
                  \<and> upper (field_value r ''correct_answer'') \<in> set [''A'', ''B'', ''C'', ''D''])"

definition question_columns ::
  "question \<Rightarrow> nat \<times> string \<times> string \<times> string \<times> string \<times> string \<times> string" where
  "question_columns q = (question_quiz_id q, question_text q, option_a q, option_b q,
                         option_c q, option_d q, correct_answer q)"

definition row_columns ::
  "nat \<Rightarrow> row \<Rightarrow> nat \<times> string \<times> string \<times> string \<times> string \<times> string \<times> string" where
  "row_columns quiz_id r =
     (quiz_id, field_value r ''question_text'', field_value r ''option_a'',
      field_value r ''option_b'', field_value r ''option_c'', field_value r ''option_d'',
      upper (field_value r ''correct_answer''))"

text \<open>
  Auxiliary notions for the import loop: the pending question built from a row, the rows
  that pass the loop's checks, and the pending questions whose values can be bound.
\<close>

definition row_pending :: "row \<Rightarrow> pending_question" where
  "row_pending r =
     \<lparr>p_text = cell r ''question_text'', p_option_a = cell r ''option_a'',
      p_option_b = cell r ''option_b'', p_option_c = cell r ''option_c'',
      p_option_d = cell r ''option_d'',
      p_correct_answer = JStr (upper (field_value r ''correct_answer''))\<rparr>"

definition row_passes :: "row \<Rightarrow> bool" where
  "row_passes r = (list_all (\<lambda>key. r key \<noteq> None) csv_columns
                   \<and> present r ''correct_answer''
                   \<and> upper (field_value r ''correct_answer'') \<in> set [''A'', ''B'', ''C'', ''D''])"

definition storable :: "pending_question \<Rightarrow> bool" where
  "storable p = list_all (\<lambda>v. bind_text v \<noteq> None)
                  [p_text p, p_option_a p, p_option_b p, p_option_c p, p_option_d p,
                   p_correct_answer p]"

definition pending_columns ::
  "nat \<Rightarrow> pending_question \<Rightarrow> nat \<times> string \<times> string \<times> string \<times> string \<times> string \<times> string" where
  "pending_columns quiz_id p =
     (quiz_id, the (bind_text (p_text p)), the (bind_text (p_option_a p)),
      the (bind_text (p_option_b p)), the (bind_text (p_option_c p)),
      the (bind_text (p_option_d p)), the (bind_text (p_correct_answer p)))"

section \<open>Example data\<close>

text \<open>
  A quiz with five questions whose correct keys are A, B, C, D, A, its teacher, and a
  student with or without an attempt. The theorems below are instantiated with them.
\<close>

definition ex_student :: user where
  "ex_student = \<lparr>uid = 7, email = ''s@example.org'', role = ''student''\<rparr>"

definition ex_teacher :: user where
  "ex_teacher = \<lparr>uid = 2, email = ''t@example.org'', role = ''teacher''\<rparr>"

definition ex_quiz :: quiz where
  "ex_quiz = \<lparr>quiz_pk = 1, title = ''Algebra'', start_time = 100, duration_minutes = 30,
              teacher_id = 2\<rparr>"

definition ex_question :: "nat \<Rightarrow> string \<Rightarrow> question" where
  "ex_question n key =
     \<lparr>question_pk = n, question_quiz_id = 1, question_text = ''What?'',
      option_a = ''w'', option_b = ''x'', option_c = ''y'', option_d = ''z'',
      correct_answer = key\<rparr>"

definition ex_db :: db where
  "ex_db = \<lparr>quizzes = [ex_quiz],
            questions = [ex_question 1 ''A'', ex_question 2 ''B'', ex_question 3 ''C'',
                         ex_question 4 ''D'', ex_question 5 ''A''],
            attempts = [], proctor_logs = []\<rparr>"

definition ex_attempt :: "bool \<Rightarrow> attempt" where
  "ex_attempt fin =
     \<lparr>attempt_pk = 1, attempt_quiz_id = 1, attempt_student_id = 7,
      score = (if fin then Some 3 else None),
      total_questions = (if fin then Some 5 else None), started_at = 120,
      finished_at = (if fin then Some 150 else None), finished = fin\<rparr>"

text \<open>
  The library functions on the strings of the examples: the start time
  \<^verbatim>\<open>2030-01-01T09:00:00+00:00\<close> parses (to a datetime written 1000 here),
  \<^verbatim>\<open>int('45')\<close> is 45, and the other strings used below are rejected by both; in an
  \<^verbatim>\<open>INTEGER\<close> column the text \<^verbatim>\<open>3\<close> becomes the integer 3 and the text \<^verbatim>\<open>third\<close>
  stays a text.
\<close>

definition ex_lib :: stdlib where
  "ex_lib = \<lparr>fromisoformat = (\<lambda>s. if s = ''2030-01-01T09:00:00+00:00'' then Some 1000 else None),
             int_of_str = (\<lambda>s. if s = ''45'' then Some 45 else None),
             integer_affinity = (\<lambda>s. if s = ''3'' then SqlInteger 3 else SqlText s)\<rparr>"

text \<open>
  The requests that lead from the empty database to a quiz whose one question has the
  empty string as its correct key, with an attempt of the student under way.
\<close>

definition ex_blank_key_requests :: "request list" where
  "ex_blank_key_requests =
     [CreateQuiz ex_teacher
        (JObj [(''title'', JStr ''Algebra''), (''startTime'', JStr ''2030-01-01T09:00:00Z''),
               (''durationMinutes'', JInt 30)]),
      AddQuestion ex_teacher 1
        (JObj [(''text'', JStr ''2 + 2?''),
               (''options'', JObj [(''A'', JStr ''3''), (''B'', JStr ''4''),
                                   (''C'', JStr ''5''), (''D'', JStr ''6'')]),
               (''correctAnswer'', JStr [])]),
      StartAttempt ex_student 1 2000 2000]"

text \<open>
  The example quiz beside a second quiz with one question of its own, and the student's
  attempt on the first under way.
\<close>

definition ex_two_quiz_db :: db where
  "ex_two_quiz_db =
     ex_db\<lparr>quizzes := [ex_quiz, ex_quiz\<lparr>quiz_pk := 2, title := ''Geometry''\<rparr>],
           questions := questions ex_db @ [(ex_question 6 ''A'')\<lparr>question_quiz_id := 2\<rparr>],
           attempts := [ex_attempt False]\<rparr>"

text \<open>A complete CSV row and an uploaded file named \<^verbatim>\<open>bank.csv\<close>.\<close>

definition ex_row :: "string \<Rightarrow> string \<Rightarrow> row" where
  "ex_row txt ans =
     map_of [(''question_text'', Some txt), (''option_a'', Some ''w''), (''option_b'', Some ''x''),
             (''option_c'', Some ''y''), (''option_d'', Some ''z''), (''correct_answer'', Some ans)]"

definition ex_upload :: "row list \<Rightarrow> upload" where
  "ex_upload rows = \<lparr>filename = ''bank.csv'', content = Some rows\<rparr>"

section \<open>Properties\<close>

subsection \<open>One attempt per quiz and student\<close>

lemma attempt_key_finish: "attempt_key (finish_attempt sc tot now a) = attempt_key a"
  by (simp add: attempt_key_def finish_attempt_def)

lemma map_update_first:
  "(\<And>x. g (f x) = g x) \<Longrightarrow> map g (update_first P f xs) = map g xs"
  by (induction xs) auto

lemma insert_question_attempts:
  "insert_question d quiz_id p = Some d' \<Longrightarrow> attempts d' = attempts d"
  by (auto simp: insert_question_def split: if_splits)

lemma insert_questions_attempts:
  "insert_questions d quiz_id ps = Some d' \<Longrightarrow> attempts d' = attempts d"
proof (induction ps arbitrary: d)
  case Nil
  then show ?case by simp
next
  case (Cons p ps)
  then show ?case
    by (auto split: option.splits dest: insert_question_attempts)
qed

lemma create_attempts: "attempts (snd (manage_quizzes_POST lib d u data)) = attempts d"
  by (simp add: manage_quizzes_POST_def Let_def split: json.splits option.splits)

lemma add_manual_attempts: "attempts (snd (add_question_manual d u quiz_id data)) = attempts d"
  by (auto simp: add_question_manual_def split: json.splits option.splits
      dest: insert_question_attempts)

lemma csv_attempts: "attempts (snd (add_questions_csv d u quiz_id file)) = attempts d"
  by (auto simp: add_questions_csv_def split: option.splits sum.splits
      dest: insert_questions_attempts)

lemma log_attempts: "attempts (snd (log_proctor_event lib d u quiz_id data now)) = attempts d"
  by (simp add: log_proctor_event_def split: json.splits option.splits)

lemma delete_distinct:
  "distinct (map attempt_key (attempts d)) \<Longrightarrow>
   distinct (map attempt_key (attempts (snd (manage_quiz_details_DELETE d u quiz_id))))"
  by (simp add: manage_quiz_details_DELETE_def distinct_map_filter split: option.splits)

lemma submit_keys:
  "map attempt_key (attempts (snd (submit_quiz_attempt d u quiz_id data now)))
   = map attempt_key (attempts d)"
  by (simp add: submit_quiz_attempt_def Let_def map_update_first attempt_key_finish
      split: json.splits option.splits sum.splits)

lemma start_distinct:
  "distinct (map attempt_key (attempts d)) \<Longrightarrow>
   distinct (map attempt_key (attempts (snd (start_quiz_attempt d u quiz_id utcnow now))))"
  by (auto simp: start_quiz_attempt_def Let_def find_None_iff attempt_key_def new_attempt_def
      split: option.splits)

lemma step_distinct:
  "distinct (map attempt_key (attempts d)) \<Longrightarrow>
   distinct (map attempt_key (attempts (step lib d r)))"
  by (cases r)
     (simp_all add: create_attempts add_manual_attempts csv_attempts log_attempts
        delete_distinct submit_keys start_distinct)

lemma foldl_step_distinct:
  "distinct (map attempt_key (attempts d)) \<Longrightarrow>
   distinct (map attempt_key (attempts (foldl (step lib) d rs)))"
  by (induction rs arbitrary: d) (simp_all add: step_distinct)

lemma distinct_map_filter_le1:
  "distinct (map f xs) \<Longrightarrow> length (filter (\<lambda>x. f x = k) xs) \<le> Suc 0"
  by (induction xs) (auto simp: filter_empty_conv image_iff)

lemma get_quiz_pk: "get_quiz d quiz_id = Some qz \<Longrightarrow> quiz_pk qz = quiz_id"
  by (auto simp: get_quiz_def find_Some_iff)

text \<open>
  Claim C1. For every quiz \<open>q\<close> and student \<open>s\<close>, at most one attempt row exists for the
  pair after any sequence of requests served from the empty database.
  \<^verbatim>\<open>start_quiz_attempt\<close>, called by a student on an existing quiz, answers with the
  conflict error and leaves the state as it is whenever some attempt row of the pair
  exists, whatever its \<open>finished\<close> flag. When no row of the pair exists and the clock is
  not before the quiz's start time it appends exactly one row, which is unfinished, has no
  score and carries the current time as its start timestamp. It changes the attempt table
  in no other case.
\<close>

theorem start_attempt_at_most_one:
  "length (filter (\<lambda>a. attempt_quiz_id a = q \<and> attempt_student_id a = s)
             (attempts (foldl (step lib) empty_db rs))) \<le> 1
   \<and> (role u = ''student'' \<and> get_quiz d quiz_id = Some qz
        \<and> (\<exists>a \<in> set (attempts d). attempt_quiz_id a = quiz_id \<and> attempt_student_id a = uid u)
      \<longrightarrow> start_quiz_attempt d u quiz_id utcnow now = (Inl ConflictError, d))
   \<and> (role u = ''student'' \<and> get_quiz d quiz_id = Some qz
        \<and> \<not> (\<exists>a \<in> set (attempts d). attempt_quiz_id a = quiz_id \<and> attempt_student_id a = uid u)
        \<and> \<not> utcnow < start_time qz
      \<longrightarrow> (\<exists>resp. start_quiz_attempt d u quiz_id utcnow now
                  = (Inr resp, d\<lparr>attempts := attempts d @ [new_attempt d quiz_id (uid u) now]\<rparr>)))
   \<and> (let a = new_attempt d quiz_id (uid u) now
      in attempt_quiz_id a = quiz_id \<and> attempt_student_id a = uid u
         \<and> finished a = False \<and> started_at a = now
         \<and> score a = None \<and> total_questions a = None \<and> finished_at a = None)
   \<and> (attempts (snd (start_quiz_attempt d u quiz_id utcnow now)) \<noteq> attempts d
      \<longrightarrow> \<not> (\<exists>a \<in> set (attempts d). attempt_quiz_id a = quiz_id \<and> attempt_student_id a = uid u))"
proof (intro conjI impI)
  have "distinct (map attempt_key (attempts (foldl (step lib) empty_db rs)))"
    by (rule foldl_step_distinct) (simp add: empty_db_def)
  from distinct_map_filter_le1 [OF this, of "(q, s)"]
  show "length (filter (\<lambda>a. attempt_quiz_id a = q \<and> attempt_student_id a = s)
             (attempts (foldl (step lib) empty_db rs))) \<le> 1"
    by (simp add: attempt_key_def)
next
  assume h: "role u = ''student'' \<and> get_quiz d quiz_id = Some qz
        \<and> (\<exists>a \<in> set (attempts d). attempt_quiz_id a = quiz_id \<and> attempt_student_id a = uid u)"
  then have pk: "quiz_pk qz = quiz_id" by (auto dest: get_quiz_pk)
  from h pk have "find (\<lambda>a. attempt_quiz_id a = quiz_pk qz \<and> attempt_student_id a = uid u)
                    (attempts d) \<noteq> None"
    by (auto simp: find_None_iff)
  with h show "start_quiz_attempt d u quiz_id utcnow now = (Inl ConflictError, d)"
    by (auto simp: start_quiz_attempt_def)
next
  assume h: "role u = ''student'' \<and> get_quiz d quiz_id = Some qz
        \<and> \<not> (\<exists>a \<in> set (attempts d). attempt_quiz_id a = quiz_id \<and> attempt_student_id a = uid u)
        \<and> \<not> utcnow < start_time qz"
  then have pk: "quiz_pk qz = quiz_id" by (auto dest: get_quiz_pk)
  from h pk have "find (\<lambda>a. attempt_quiz_id a = quiz_pk qz \<and> attempt_student_id a = uid u)
                    (attempts d) = None"
    by (auto simp: find_None_iff)
  with h pk show "\<exists>resp. start_quiz_attempt d u quiz_id utcnow now
                  = (Inr resp, d\<lparr>attempts := attempts d @ [new_attempt d quiz_id (uid u) now]\<rparr>)"
    by (simp add: start_quiz_attempt_def Let_def)
next
  show "let a = new_attempt d quiz_id (uid u) now
      in attempt_quiz_id a = quiz_id \<and> attempt_student_id a = uid u
         \<and> finished a = False \<and> started_at a = now
         \<and> score a = None \<and> total_questions a = None \<and> finished_at a = None"
    by (simp add: new_attempt_def)
next
  assume "attempts (snd (start_quiz_attempt d u quiz_id utcnow now)) \<noteq> attempts d"
  then show "\<not> (\<exists>a \<in> set (attempts d). attempt_quiz_id a = quiz_id \<and> attempt_student_id a = uid u)"
    by (auto simp: start_quiz_attempt_def Let_def find_None_iff
        split: if_splits option.splits dest: get_quiz_pk)
qed

theorem start_attempt_at_most_one_witness:
  "start_quiz_attempt (ex_db\<lparr>attempts := [ex_attempt True]\<rparr>) ex_student 1 500 500
     = (Inl ConflictError, ex_db\<lparr>attempts := [ex_attempt True]\<rparr>)
   \<and> start_quiz_attempt (ex_db\<lparr>attempts := [ex_attempt False]\<rparr>) ex_student 1 500 500
     = (Inl ConflictError, ex_db\<lparr>attempts := [ex_attempt False]\<rparr>)
   \<and> (\<exists>resp. start_quiz_attempt ex_db ex_student 1 100 101
                = (Inr resp, ex_db\<lparr>attempts := [new_attempt ex_db 1 7 101]\<rparr>))
   \<and> attempts (snd (start_quiz_attempt ex_db ex_student 1 100 101)) \<noteq> attempts ex_db"
  using start_attempt_at_most_one
          [of 1 7 ex_lib "[]" ex_student
              "ex_db\<lparr>attempts := [ex_attempt True]\<rparr>" 1 ex_quiz 500 500]
        start_attempt_at_most_one
          [of 1 7 ex_lib "[]" ex_student
              "ex_db\<lparr>attempts := [ex_attempt False]\<rparr>" 1 ex_quiz 500 500]
        start_attempt_at_most_one
          [of 1 7 ex_lib "[]" ex_student
              ex_db 1 ex_quiz 100 101]
  by (simp add: ex_db_def ex_student_def ex_quiz_def ex_attempt_def get_quiz_def
      start_quiz_attempt_def Let_def new_attempt_def)

subsection \<open>The time window\<close>

text \<open>
  Claim C5. For an existing quiz and a student without an attempt row for it,
  \<^verbatim>\<open>start_quiz_attempt\<close> answers with the timing error exactly when the clock is strictly
  before the quiz's start time, and succeeds exactly when the clock is at or after it.
  Nothing bounds the clock from above: \<^verbatim>\<open>duration_minutes\<close> is not consulted.
\<close>

theorem start_attempt_timing:
  "role u = ''student'' \<and> get_quiz d quiz_id = Some qz
   \<and> \<not> (\<exists>a \<in> set (attempts d). attempt_quiz_id a = quiz_id \<and> attempt_student_id a = uid u)
   \<longrightarrow> ((fst (start_quiz_attempt d u quiz_id utcnow now) = Inl TimingError)
          = (utcnow < start_time qz))
       \<and> ((\<exists>resp. fst (start_quiz_attempt d u quiz_id utcnow now) = Inr resp)
          = (start_time qz \<le> utcnow))"
proof
  assume h: "role u = ''student'' \<and> get_quiz d quiz_id = Some qz
   \<and> \<not> (\<exists>a \<in> set (attempts d). attempt_quiz_id a = quiz_id \<and> attempt_student_id a = uid u)"
  then have pk: "quiz_pk qz = quiz_id" by (auto dest: get_quiz_pk)
  from h pk have "find (\<lambda>a. attempt_quiz_id a = quiz_pk qz \<and> attempt_student_id a = uid u)
                    (attempts d) = None"
    by (auto simp: find_None_iff)
  with h show "((fst (start_quiz_attempt d u quiz_id utcnow now) = Inl TimingError)
          = (utcnow < start_time qz))
       \<and> ((\<exists>resp. fst (start_quiz_attempt d u quiz_id utcnow now) = Inr resp)
          = (start_time qz \<le> utcnow))"
    by (auto simp: start_quiz_attempt_def Let_def)
qed

theorem start_attempt_timing_witness:
  "fst (start_quiz_attempt ex_db ex_student 1 99 99) = Inl TimingError
   \<and> (\<exists>resp. fst (start_quiz_attempt ex_db ex_student 1 100 100) = Inr resp)
   \<and> (\<exists>resp. fst (start_quiz_attempt ex_db ex_student 1 1000000000 1000000000) = Inr resp)"
  using start_attempt_timing [of ex_student ex_db 1 ex_quiz 99 99]
        start_attempt_timing [of ex_student ex_db 1 ex_quiz 100 100]
        start_attempt_timing [of ex_student ex_db 1 ex_quiz 1000000000 1000000000]
  by (simp add: ex_db_def ex_student_def ex_quiz_def get_quiz_def)

subsection \<open>Submitting twice\<close>






subsection \<open>Grading\<close>

lemma grade_count:
  "grade (JObj answers) qs sc
   = Inr (sc + int (length (filter (answered_correctly_nonempty answers) qs)))"
proof (induction qs arbitrary: sc)
  case Nil
  show ?case by simp
next
  case (Cons q qs)
  have "(truthy (dict_get answers (py_str (question_pk q)))
         \<and> dict_get answers (py_str (question_pk q)) = JStr (correct_answer q))
        = answered_correctly_nonempty answers q"
    by (auto simp: dict_get_def answered_correctly_nonempty_def answered_correctly_def
        split: option.splits)
  then show ?case
    using Cons.IH by (simp add: Let_def)
qed

text \<open>
  Claim C2, as stated, fails. The requests of \<open>ex_blank_key_requests\<close>, served from the
  empty database, leave a quiz whose one question has the empty string as correct key.
  The answer submitted for it is present and equal to that key, so the claim counts the
  question, and the handler returns score 0 of 1.
\<close>

theorem submit_score_blank_key:
  "fst (submit_quiz_attempt (foldl (step ex_lib) empty_db ex_blank_key_requests) ex_student 1
          (JObj [(''answers'', JObj [(''1'', JStr [])])]) 3000)
     = Inr (JObj [(''score'', JInt 0), (''totalQuestions'', JInt 1)])
   \<and> length (filter (answered_correctly [(''1'', JStr [])])
               (quiz_questions (foldl (step ex_lib) empty_db ex_blank_key_requests) 1)) = 1"
  by (simp add: ex_blank_key_requests_def manage_quizzes_POST_def add_question_manual_def
      start_quiz_attempt_def submit_quiz_attempt_def ex_lib_def ex_teacher_def ex_student_def
      empty_db_def replace_Z_def in_int64_def fresh_id_def get_quiz_def dict_get_def
      insert_question_def new_attempt_def active_attempt_def quiz_questions_def
      answered_correctly_def Let_def py_str.simps digit_char_def)

text \<open>
  Claim C2, amended. When a student with an unfinished attempt submits an answers
  mapping, the returned score is the number of the quiz's current questions whose
  submitted answer is present, not the empty string, and equal to the question's correct
  key, and the returned total is the number of the quiz's current questions, those of
  other quizzes not counted. For correct keys A, B, C, D, A and the answers 1:A, 2:X, 3:C,
  5:A the result is score 3 of 5; an answer \<^verbatim>\<open>a\<close> for the key \<^verbatim>\<open>A\<close> does not count.
\<close>

theorem submit_score:
  "(role u = ''student''
    \<and> find (active_attempt quiz_id (uid u)) (attempts d) = Some a
    \<and> map_of payload ''answers'' = Some (JObj answers)
    \<longrightarrow> fst (submit_quiz_attempt d u quiz_id (JObj payload) now)
        = Inr (JObj [(''score'',
                       JInt (int (length (filter (answered_correctly_nonempty answers)
                                            (filter (\<lambda>q. question_quiz_id q = quiz_id)
                                               (questions d)))))),
                      (''totalQuestions'',
                       JInt (int (length (filter (\<lambda>q. question_quiz_id q = quiz_id)
                                            (questions d)))))]))
   \<and> fst (submit_quiz_attempt ex_two_quiz_db ex_student 1
            (JObj [(''answers'', JObj [(''1'', JStr ''A''), (''2'', JStr ''X''),
                                       (''3'', JStr ''C''), (''5'', JStr ''A''),
                                       (''6'', JStr ''A'')])]) now)
     = Inr (JObj [(''score'', JInt 3), (''totalQuestions'', JInt 5)])
   \<and> fst (submit_quiz_attempt ex_two_quiz_db ex_student 1
            (JObj [(''answers'', JObj [(''1'', JStr ''a'')])]) now)
     = Inr (JObj [(''score'', JInt 0), (''totalQuestions'', JInt 5)])"
proof (intro conjI impI)
  assume h: "role u = ''student''
    \<and> find (active_attempt quiz_id (uid u)) (attempts d) = Some a
    \<and> map_of payload ''answers'' = Some (JObj answers)"
  have "grade (JObj answers) (quiz_questions d quiz_id) 0
        = Inr (int (length (filter (answered_correctly_nonempty answers)
                              (quiz_questions d quiz_id))))"
    by (simp add: grade_count)
  with h show "fst (submit_quiz_attempt d u quiz_id (JObj payload) now)
        = Inr (JObj [(''score'',
                       JInt (int (length (filter (answered_correctly_nonempty answers)
                                            (filter (\<lambda>q. question_quiz_id q = quiz_id)
                                               (questions d)))))),
                      (''totalQuestions'',
                       JInt (int (length (filter (\<lambda>q. question_quiz_id q = quiz_id)
                                            (questions d)))))])"
    by (simp add: submit_quiz_attempt_def Let_def quiz_questions_def)
next
  show "fst (submit_quiz_attempt ex_two_quiz_db ex_student 1
            (JObj [(''answers'', JObj [(''1'', JStr ''A''), (''2'', JStr ''X''),
                                       (''3'', JStr ''C''), (''5'', JStr ''A''),
                                       (''6'', JStr ''A'')])]) now)
     = Inr (JObj [(''score'', JInt 3), (''totalQuestions'', JInt 5)])"
    by (simp add: submit_quiz_attempt_def ex_two_quiz_db_def ex_db_def ex_student_def
        ex_attempt_def ex_question_def active_attempt_def quiz_questions_def dict_get_def
        Let_def py_str.simps digit_char_def)
next
  show "fst (submit_quiz_attempt ex_two_quiz_db ex_student 1
            (JObj [(''answers'', JObj [(''1'', JStr ''a'')])]) now)
     = Inr (JObj [(''score'', JInt 0), (''totalQuestions'', JInt 5)])"
    by (simp add: submit_quiz_attempt_def ex_two_quiz_db_def ex_db_def ex_student_def
        ex_attempt_def ex_question_def active_attempt_def quiz_questions_def dict_get_def
        Let_def py_str.simps digit_char_def)
qed

theorem submit_score_witness:
  "role ex_student = ''student''
   \<and> find (active_attempt 1 (uid ex_student)) (attempts ex_two_quiz_db) = Some (ex_attempt False)
   \<and> length (questions ex_two_quiz_db) = 6
   \<and> fst (submit_quiz_attempt ex_two_quiz_db ex_student 1
            (JObj [(''answers'', JObj [(''1'', JStr ''A''), (''2'', JStr ''X''),
                                       (''3'', JStr ''C''), (''5'', JStr ''A''),
                                       (''6'', JStr ''A'')])]) 200)
     = Inr (JObj [(''score'', JInt 3), (''totalQuestions'', JInt 5)])"
proof -
  let ?d = "ex_two_quiz_db"
  let ?ans = "[(''1'', JStr ''A''), (''2'', JStr ''X''), (''3'', JStr ''C''), (''5'', JStr ''A''),
               (''6'', JStr ''A'')]"
  have r: "role ex_student = ''student''" by (simp add: ex_student_def)
  have f: "find (active_attempt 1 (uid ex_student)) (attempts ?d) = Some (ex_attempt False)"
    by (simp add: ex_two_quiz_db_def active_attempt_def ex_attempt_def ex_student_def)
  have m: "map_of [(''answers'', JObj ?ans)] ''answers'' = Some (JObj ?ans)" by simp
  have six: "length (questions ?d) = 6"
    by (simp add: ex_two_quiz_db_def ex_db_def)
  have t: "length (filter (\<lambda>q. question_quiz_id q = 1) (questions ?d)) = 5"
    by (simp add: ex_two_quiz_db_def ex_db_def ex_question_def)
  have n: "length (filter (answered_correctly_nonempty ?ans)
                     (filter (\<lambda>q. question_quiz_id q = 1) (questions ?d))) = 3"
    by (simp add: ex_two_quiz_db_def ex_db_def ex_question_def answered_correctly_nonempty_def
        answered_correctly_def py_str.simps digit_char_def)
  from submit_score [of ex_student 1 ?d "ex_attempt False" "[(''answers'', JObj ?ans)]" ?ans 200]
       r f m
  have "fst (submit_quiz_attempt ?d ex_student 1 (JObj [(''answers'', JObj ?ans)]) 200)
        = Inr (JObj [(''score'',
                       JInt (int (length (filter (answered_correctly_nonempty ?ans)
                                            (filter (\<lambda>q. question_quiz_id q = 1)
                                               (questions ?d)))))),
                      (''totalQuestions'',
                       JInt (int (length (filter (\<lambda>q. question_quiz_id q = 1)
                                            (questions ?d)))))])"
    by blast
  with n t r f six show ?thesis by simp
qed

lemma grade_no_answers: "grade (JObj []) qs sc = Inr sc"
  by (induction qs arbitrary: sc) (simp_all add: dict_get_def)

lemma grade_agree:
  "list_all (\<lambda>q. map_of a1 (py_str (question_pk q)) = map_of a2 (py_str (question_pk q))) qs
   \<Longrightarrow> grade (JObj a1) qs sc = grade (JObj a2) qs sc"
  by (induction qs arbitrary: sc) (simp_all add: dict_get_def Let_def)

lemma update_first_found: "find P xs = Some a \<Longrightarrow> f a \<in> set (update_first P f xs)"
  by (induction xs) (auto split: if_splits)

lemma update_first_keeps: "x \<in> set xs \<Longrightarrow> \<not> P x \<Longrightarrow> x \<in> set (update_first P f xs)"
  by (induction xs) auto

lemma finished_attempt_stays:
  "finished x \<Longrightarrow> x \<in> set (attempts d) \<Longrightarrow>
   x \<in> set (attempts (step lib d r)) \<or> (\<exists>u. r = DeleteQuiz u (attempt_quiz_id x))"
proof (cases r)
  case (DeleteQuiz u quiz_id)
  assume "finished x" "x \<in> set (attempts d)"
  with DeleteQuiz show ?thesis
    by (auto simp: manage_quiz_details_DELETE_def split: option.splits dest: get_quiz_pk)
next
  case (StartAttempt u quiz_id utcnow now)
  assume "finished x" "x \<in> set (attempts d)"
  with StartAttempt show ?thesis
    by (auto simp: start_quiz_attempt_def Let_def split: option.splits)
next
  case (SubmitAttempt u quiz_id data now)
  assume "finished x" "x \<in> set (attempts d)"
  then have "x \<in> set (update_first (active_attempt quiz_id (uid u)) f (attempts d))" for f
    by (simp add: update_first_keeps active_attempt_def)
  with SubmitAttempt \<open>x \<in> set (attempts d)\<close> show ?thesis
    by (auto simp: submit_quiz_attempt_def Let_def split: option.splits json.splits sum.splits)
qed (simp_all add: create_attempts add_manual_attempts csv_attempts log_attempts)

text \<open>
  Claim C10. For a student with an unfinished attempt, a submit whose payload has no
  \<^verbatim>\<open>answers\<close> entry, or an empty one, succeeds with score 0 and with the quiz's current
  number of questions as total, and writes these to the attempt together with the finished
  flag and the finish time. A finished attempt row stays as it is under every later
  request except the deletion of its quiz. Two answers mappings that agree on the ids of
  the quiz's questions give the same response and the same state.
\<close>

theorem submit_without_answers:
  "(role u = ''student''
    \<and> find (active_attempt quiz_id (uid u)) (attempts d) = Some a
    \<and> (map_of payload ''answers'' = None \<or> map_of payload ''answers'' = Some (JObj []))
    \<longrightarrow> submit_quiz_attempt d u quiz_id (JObj payload) now
          = (Inr (JObj [(''score'', JInt 0),
                        (''totalQuestions'', JInt (int (length (quiz_questions d quiz_id))))]),
             d\<lparr>attempts := update_first (active_attempt quiz_id (uid u))
                              (finish_attempt 0 (int (length (quiz_questions d quiz_id))) now)
                              (attempts d)\<rparr>)
        \<and> finish_attempt 0 (int (length (quiz_questions d quiz_id))) now a
            \<in> set (attempts (snd (submit_quiz_attempt d u quiz_id (JObj payload) now))))
   \<and> finished (finish_attempt sc tot now a) \<and> score (finish_attempt sc tot now a) = Some sc
   \<and> total_questions (finish_attempt sc tot now a) = Some tot
   \<and> finished_at (finish_attempt sc tot now a) = Some now
   \<and> attempt_pk (finish_attempt sc tot now a) = attempt_pk a
   \<and> (finished x \<and> x \<in> set (attempts d)
      \<longrightarrow> x \<in> set (attempts (step lib d r)) \<or> (\<exists>w. r = DeleteQuiz w (attempt_quiz_id x)))
   \<and> (map_of p1 ''answers'' = Some (JObj a1) \<and> map_of p2 ''answers'' = Some (JObj a2)
      \<and> list_all (\<lambda>q. map_of a1 (py_str (question_pk q)) = map_of a2 (py_str (question_pk q)))
           (quiz_questions d quiz_id)
      \<longrightarrow> submit_quiz_attempt d u quiz_id (JObj p1) now
          = submit_quiz_attempt d u quiz_id (JObj p2) now)"
proof (intro conjI impI)
  assume h: "role u = ''student''
    \<and> find (active_attempt quiz_id (uid u)) (attempts d) = Some a
    \<and> (map_of payload ''answers'' = None \<or> map_of payload ''answers'' = Some (JObj []))"
  then show e: "submit_quiz_attempt d u quiz_id (JObj payload) now
          = (Inr (JObj [(''score'', JInt 0),
                        (''totalQuestions'', JInt (int (length (quiz_questions d quiz_id))))]),
             d\<lparr>attempts := update_first (active_attempt quiz_id (uid u))
                              (finish_attempt 0 (int (length (quiz_questions d quiz_id))) now)
                              (attempts d)\<rparr>)"
    by (auto simp: submit_quiz_attempt_def Let_def grade_no_answers)
  from h show "finish_attempt 0 (int (length (quiz_questions d quiz_id))) now a
            \<in> set (attempts (snd (submit_quiz_attempt d u quiz_id (JObj payload) now)))"
    by (simp add: e update_first_found)
next
  assume "finished x \<and> x \<in> set (attempts d)"
  then show "x \<in> set (attempts (step lib d r)) \<or> (\<exists>w. r = DeleteQuiz w (attempt_quiz_id x))"
    by (simp add: finished_attempt_stays)
next
  assume "map_of p1 ''answers'' = Some (JObj a1) \<and> map_of p2 ''answers'' = Some (JObj a2)
      \<and> list_all (\<lambda>q. map_of a1 (py_str (question_pk q)) = map_of a2 (py_str (question_pk q)))
           (quiz_questions d quiz_id)"
  then have m1: "map_of p1 ''answers'' = Some (JObj a1)"
    and m2: "map_of p2 ''answers'' = Some (JObj a2)"
    and g: "grade (JObj a1) (quiz_questions d quiz_id) 0
            = grade (JObj a2) (quiz_questions d quiz_id) 0"
    by (simp_all add: grade_agree)
  show "submit_quiz_attempt d u quiz_id (JObj p1) now
          = submit_quiz_attempt d u quiz_id (JObj p2) now"
    unfolding submit_quiz_attempt_def by (simp add: m1 m2 g split: option.split)
qed (simp_all add: finish_attempt_def)

theorem submit_without_answers_witness:
  "fst (submit_quiz_attempt (ex_db\<lparr>attempts := [ex_attempt False]\<rparr>) ex_student 1 (JObj []) 200)
     = Inr (JObj [(''score'', JInt 0), (''totalQuestions'', JInt 5)])
   \<and> fst (submit_quiz_attempt (ex_db\<lparr>attempts := [ex_attempt False]\<rparr>) ex_student 1
            (JObj [(''answers'', JObj [])]) 200)
     = Inr (JObj [(''score'', JInt 0), (''totalQuestions'', JInt 5)])
   \<and> finish_attempt 0 5 200 (ex_attempt False)
       \<in> set (attempts (snd (submit_quiz_attempt (ex_db\<lparr>attempts := [ex_attempt False]\<rparr>)
                                 ex_student 1 (JObj []) 200)))
   \<and> ex_attempt True
       \<in> set (attempts (step ex_lib (ex_db\<lparr>attempts := [ex_attempt True]\<rparr>)
                          (SubmitAttempt ex_student 1 (JObj []) 300)))
   \<and> submit_quiz_attempt (ex_db\<lparr>attempts := [ex_attempt False]\<rparr>) ex_student 1
        (JObj [(''answers'', JObj [(''1'', JStr ''A'')])]) 200
     = submit_quiz_attempt (ex_db\<lparr>attempts := [ex_attempt False]\<rparr>) ex_student 1
        (JObj [(''answers'', JObj [(''1'', JStr ''A''), (''99'', JStr ''B'')])]) 200
   \<and> length (questions ex_two_quiz_db) = 6
   \<and> fst (submit_quiz_attempt ex_two_quiz_db ex_student 1 (JObj []) 200)
     = Inr (JObj [(''score'', JInt 0), (''totalQuestions'', JInt 5)])"
proof -
  let ?d = "ex_db\<lparr>attempts := [ex_attempt False]\<rparr>"
  have r: "role ex_student = ''student''" by (simp add: ex_student_def)
  have f: "find (active_attempt 1 (uid ex_student)) (attempts ?d) = Some (ex_attempt False)"
    by (simp add: active_attempt_def ex_attempt_def ex_student_def)
  have t: "length (quiz_questions ?d 1) = 5"
    by (simp add: quiz_questions_def ex_db_def ex_question_def)
  have agree: "list_all (\<lambda>q. map_of [(''1'', JStr ''A'')] (py_str (question_pk q))
                           = map_of [(''1'', JStr ''A''), (''99'', JStr ''B'')]
                               (py_str (question_pk q)))
                 (quiz_questions ?d 1)"
    by (simp add: quiz_questions_def ex_db_def ex_question_def py_str.simps digit_char_def)
  have fin: "finished (ex_attempt True)
             \<and> ex_attempt True \<in> set (attempts (ex_db\<lparr>attempts := [ex_attempt True]\<rparr>))"
    by (simp add: ex_attempt_def)
  note a = submit_without_answers
             [of ex_student 1 ?d "ex_attempt False" "[]" 200 0 0 "ex_attempt True" ex_lib
                 "SubmitAttempt ex_student 1 (JObj []) 300"
                 "[(''answers'', JObj [(''1'', JStr ''A'')])]" "[(''1'', JStr ''A'')]"
                 "[(''answers'', JObj [(''1'', JStr ''A''), (''99'', JStr ''B'')])]"
                 "[(''1'', JStr ''A''), (''99'', JStr ''B'')]"]
  note b = submit_without_answers
             [of ex_student 1 ?d "ex_attempt False" "[(''answers'', JObj [])]" 200 0 0
                 "ex_attempt True" ex_lib "SubmitAttempt ex_student 1 (JObj []) 300"]
  note c = submit_without_answers
             [of ex_student 1 "ex_db\<lparr>attempts := [ex_attempt True]\<rparr>" "ex_attempt False" "[]"
                 200 0 0 "ex_attempt True" ex_lib "SubmitAttempt ex_student 1 (JObj []) 300"]
  from a r f t agree have 1:
    "fst (submit_quiz_attempt ?d ex_student 1 (JObj []) 200)
       = Inr (JObj [(''score'', JInt 0), (''totalQuestions'', JInt 5)])"
    "finish_attempt 0 5 200 (ex_attempt False)
       \<in> set (attempts (snd (submit_quiz_attempt ?d ex_student 1 (JObj []) 200)))"
    "submit_quiz_attempt ?d ex_student 1 (JObj [(''answers'', JObj [(''1'', JStr ''A'')])]) 200
     = submit_quiz_attempt ?d ex_student 1
        (JObj [(''answers'', JObj [(''1'', JStr ''A''), (''99'', JStr ''B'')])]) 200"
    by (simp_all add: active_attempt_def ex_attempt_def ex_student_def)
  from b r f t have 2:
    "fst (submit_quiz_attempt ?d ex_student 1 (JObj [(''answers'', JObj [])]) 200)
       = Inr (JObj [(''score'', JInt 0), (''totalQuestions'', JInt 5)])"
    by (simp add: active_attempt_def ex_attempt_def ex_student_def)
  from c fin have 3:
    "ex_attempt True \<in> set (attempts (step ex_lib (ex_db\<lparr>attempts := [ex_attempt True]\<rparr>)
                                        (SubmitAttempt ex_student 1 (JObj []) 300)))"
    by blast
  have six: "length (questions ex_two_quiz_db) = 6"
    by (simp add: ex_two_quiz_db_def ex_db_def)
  have t2: "length (quiz_questions ex_two_quiz_db 1) = 5"
    by (simp add: quiz_questions_def ex_two_quiz_db_def ex_db_def ex_question_def)
  have f2: "find (active_attempt 1 (uid ex_student)) (attempts ex_two_quiz_db)
            = Some (ex_attempt False)"
    by (simp add: ex_two_quiz_db_def active_attempt_def ex_attempt_def ex_student_def)
  have h2: "role ex_student = ''student''
            \<and> find (active_attempt 1 (uid ex_student)) (attempts ex_two_quiz_db)
                = Some (ex_attempt False)
            \<and> (map_of [] ''answers'' = None \<or> map_of [] ''answers'' = Some (JObj []))"
    using r f2 by simp
  note e = submit_without_answers
             [of ex_student 1 ex_two_quiz_db "ex_attempt False" "[]" 200 0 0 "ex_attempt True"
                 ex_lib "SubmitAttempt ex_student 1 (JObj []) 300"]
  from e [THEN conjunct1, THEN mp, OF h2, THEN conjunct1] have 4:
    "fst (submit_quiz_attempt ex_two_quiz_db ex_student 1 (JObj []) 200)
       = Inr (JObj [(''score'', JInt 0), (''totalQuestions'', JInt 5)])"
    using t2 by simp
  from 1 2 3 4 six show ?thesis by blast
qed

subsection \<open>Question views\<close>

lemma student_view_redact: "student_question_view (redact q) = student_question_view q"
  by (simp add: student_question_view_def options_view_def redact_def)

lemma quiz_questions_redact:
  "quiz_questions (d\<lparr>questions := map redact (questions d)\<rparr>) quiz_id
   = map redact (quiz_questions d quiz_id)"
  by (simp add: quiz_questions_def filter_map comp_def redact_def)

lemma start_response_redact:
  "fst (start_quiz_attempt (d\<lparr>questions := map redact (questions d)\<rparr>) u quiz_id utcnow now)
   = fst (start_quiz_attempt d u quiz_id utcnow now)"
proof -
  have q: "quiz_questions (d\<lparr>questions := map redact (questions d), attempts := xs\<rparr>) k
           = map redact (quiz_questions d k)" for xs k
    by (simp add: quiz_questions_def filter_map comp_def redact_def)
  have q': "quiz_questions (d\<lparr>attempts := xs\<rparr>) k = quiz_questions d k" for xs k
    by (simp add: quiz_questions_def)
  show ?thesis
    by (simp add: start_quiz_attempt_def Let_def get_quiz_def new_attempt_def q q'
        student_view_redact split: option.split)
qed

lemma start_response_questions:
  "start_quiz_attempt d u quiz_id utcnow now = (Inr resp, d') \<Longrightarrow>
   json_field resp ''questions''
   = Some (JArr (map student_question_view (quiz_questions d quiz_id)))"
  by (auto simp: start_quiz_attempt_def Let_def json_field_def quiz_questions_def
      split: if_splits option.splits dest: get_quiz_pk)

lemma detail_response_questions:
  "manage_quiz_details_GET d u quiz_id = Inr resp \<Longrightarrow>
   json_field resp ''questions''
   = Some (JArr (map teacher_question_view (quiz_questions d quiz_id)))"
  by (auto simp: manage_quiz_details_GET_def json_field_def
      split: if_splits option.splits dest: get_quiz_pk)

text \<open>
  Claim C4. The response of a successful \<^verbatim>\<open>start_quiz_attempt\<close> lists the quiz's questions
  as objects with exactly the keys \<^verbatim>\<open>id\<close>, \<^verbatim>\<open>text\<close> and \<^verbatim>\<open>options\<close>, the options being
  the four texts under A to D: no \<^verbatim>\<open>correctAnswer\<close> key occurs, and the whole response is
  the same for two question tables that differ only in the stored correct keys. The
  question list in the response of the quiz-detail \<^verbatim>\<open>GET\<close> holds, for each question, the
  key \<^verbatim>\<open>correctAnswer\<close> with the stored correct key.
\<close>

theorem question_views:
  "(start_quiz_attempt d u quiz_id utcnow now = (Inr resp, d')
    \<longrightarrow> json_keys resp = [''attemptId'', ''quizTitle'', ''duration'', ''questions'']
        \<and> json_field resp ''questions''
            = Some (JArr (map student_question_view (quiz_questions d quiz_id))))
   \<and> json_keys (student_question_view q) = [''id'', ''text'', ''options'']
   \<and> ''correctAnswer'' \<notin> set (json_keys (student_question_view q))
   \<and> json_field (student_question_view q) ''options'' = Some (options_view q)
   \<and> json_keys (options_view q) = [''A'', ''B'', ''C'', ''D'']
   \<and> (map redact qs = map redact (questions d)
      \<longrightarrow> fst (start_quiz_attempt (d\<lparr>questions := qs\<rparr>) u quiz_id utcnow now)
          = fst (start_quiz_attempt d u quiz_id utcnow now))
   \<and> (manage_quiz_details_GET d u quiz_id = Inr detail
      \<longrightarrow> json_field detail ''questions''
          = Some (JArr (map teacher_question_view (quiz_questions d quiz_id))))
   \<and> json_field (teacher_question_view q) ''correctAnswer'' = Some (JStr (correct_answer q))"
proof (intro conjI impI)
  assume h: "start_quiz_attempt d u quiz_id utcnow now = (Inr resp, d')"
  then show "json_keys resp = [''attemptId'', ''quizTitle'', ''duration'', ''questions'']"
    by (auto simp: start_quiz_attempt_def Let_def json_keys_def split: if_splits option.splits)
  from h show "json_field resp ''questions''
            = Some (JArr (map student_question_view (quiz_questions d quiz_id)))"
    by (rule start_response_questions)
next
  assume e: "map redact qs = map redact (questions d)"
  have "fst (start_quiz_attempt (d\<lparr>questions := qs\<rparr>) u quiz_id utcnow now)
        = fst (start_quiz_attempt (d\<lparr>questions := qs\<rparr>\<lparr>questions := map redact
                 (questions (d\<lparr>questions := qs\<rparr>))\<rparr>) u quiz_id utcnow now)"
    by (rule start_response_redact [symmetric])
  also have "\<dots> = fst (start_quiz_attempt (d\<lparr>questions := map redact (questions d)\<rparr>)
                        u quiz_id utcnow now)"
    by (simp add: e)
  also have "\<dots> = fst (start_quiz_attempt d u quiz_id utcnow now)"
    by (rule start_response_redact)
  finally show "fst (start_quiz_attempt (d\<lparr>questions := qs\<rparr>) u quiz_id utcnow now)
          = fst (start_quiz_attempt d u quiz_id utcnow now)" .
next
  assume "manage_quiz_details_GET d u quiz_id = Inr detail"
  then show "json_field detail ''questions''
          = Some (JArr (map teacher_question_view (quiz_questions d quiz_id)))"
    by (rule detail_response_questions)
qed (simp_all add: json_keys_def json_field_def student_question_view_def options_view_def
       teacher_question_view_def)

theorem question_views_witness:
  "(\<exists>resp s. start_quiz_attempt ex_db ex_student 1 100 100 = (Inr resp, s)
       \<and> json_keys resp = [''attemptId'', ''quizTitle'', ''duration'', ''questions'']
       \<and> json_field resp ''questions''
           = Some (JArr (map student_question_view (questions ex_db))))
   \<and> fst (start_quiz_attempt
            (ex_db\<lparr>questions := [ex_question 1 ''D'', ex_question 2 ''C'', ex_question 3 ''B'',
                                 ex_question 4 ''A'', ex_question 5 ''B'']\<rparr>)
            ex_student 1 100 100)
     = fst (start_quiz_attempt ex_db ex_student 1 100 100)
   \<and> (\<exists>detail. manage_quiz_details_GET ex_db ex_teacher 1 = Inr detail
       \<and> json_field detail ''questions''
           = Some (JArr (map teacher_question_view (questions ex_db))))"
proof -
  let ?alt = "[ex_question 1 ''D'', ex_question 2 ''C'', ex_question 3 ''B'',
               ex_question 4 ''A'', ex_question 5 ''B'']"
  have "\<exists>resp s. start_quiz_attempt ex_db ex_student 1 100 100 = (Inr resp, s)"
    by (simp add: start_quiz_attempt_def ex_db_def ex_student_def ex_quiz_def get_quiz_def
        Let_def)
  then obtain resp s where st: "start_quiz_attempt ex_db ex_student 1 100 100 = (Inr resp, s)"
    by blast
  have "\<exists>detail. manage_quiz_details_GET ex_db ex_teacher 1 = Inr detail"
    by (simp add: manage_quiz_details_GET_def ex_db_def ex_teacher_def ex_quiz_def get_quiz_def)
  then obtain detail where dt: "manage_quiz_details_GET ex_db ex_teacher 1 = Inr detail"
    by blast
  have qq: "quiz_questions ex_db 1 = questions ex_db"
    by (simp add: quiz_questions_def ex_db_def ex_question_def)
  have rd: "map redact ?alt = map redact (questions ex_db)"
    by (simp add: redact_def ex_db_def ex_question_def)
  from question_views [of ex_db ex_student 1 100 100 resp s "ex_question 1 ''A''" ?alt detail]
       question_views [of ex_db ex_teacher 1 100 100 resp s "ex_question 1 ''A''" ?alt detail]
       st dt qq rd
  show ?thesis by simp
qed

subsection \<open>Proctor events\<close>


lemma storable_text: "storable_scalar v = (bind_text v \<noteq> None)"
  by (cases v) (simp_all add: storable_scalar_def)




subsection \<open>Adding a question by hand\<close>

text \<open>
  Claim C7. The claim wants a correct key outside A to D rejected. The handler checks
  that the keys \<^verbatim>\<open>text\<close>, \<^verbatim>\<open>options\<close>, \<^verbatim>\<open>correctAnswer\<close> and the four option keys are
  there, and stores the correct key as it comes: the owner's request with the correct key
  \<^verbatim>\<open>E\<close> succeeds and the question is stored with that key. The CSV import, in contrast,
  rejects such a key.
\<close>

theorem add_question_manual_unchecked_key:
  "add_question_manual ex_db ex_teacher 1
     (JObj [(''text'', JStr ''2 + 2?''),
            (''options'', JObj [(''A'', JStr ''3''), (''B'', JStr ''4''), (''C'', JStr ''5''),
                                (''D'', JStr ''6'')]),
            (''correctAnswer'', JStr ''E'')])
   = (Inr (JObj [(''id'', JInt 6), (''text'', JStr ''2 + 2?'')]),
      ex_db\<lparr>questions := questions ex_db @
        [\<lparr>question_pk = 6, question_quiz_id = 1, question_text = ''2 + 2?'',
          option_a = ''3'', option_b = ''4'', option_c = ''5'', option_d = ''6'',
          correct_answer = ''E''\<rparr>]\<rparr>)"
  by (simp add: add_question_manual_def ex_db_def ex_teacher_def ex_quiz_def ex_question_def
      get_quiz_def dict_get_def insert_question_def fresh_id_def)

subsection \<open>Creating a quiz\<close>

text \<open>
  Claim C8, as stated, fails: a request with \<^verbatim>\<open>durationMinutes\<close> 0 succeeds and the quiz
  is stored with duration 0.
\<close>

theorem create_quiz_zero_duration:
  "manage_quizzes_POST ex_lib empty_db ex_teacher
     (JObj [(''title'', JStr ''Algebra''), (''startTime'', JStr ''2030-01-01T09:00:00Z''),
            (''durationMinutes'', JInt 0)])
   = (Inr (JObj [(''id'', JInt 1), (''title'', JStr ''Algebra'')]),
      empty_db\<lparr>quizzes := [\<lparr>quiz_pk = 1, title = ''Algebra'', start_time = 1000,
                              duration_minutes = 0, teacher_id = 2\<rparr>]\<rparr>)"
  by (simp add: manage_quizzes_POST_def ex_lib_def empty_db_def ex_teacher_def replace_Z_def
      fresh_id_def in_int64_def)

text \<open>
  Claim C8, amended. The \<^verbatim>\<open>POST\<close> of \<^verbatim>\<open>manage_quizzes\<close> answers with the validation
  error and stores nothing whenever the start time is missing, not a string or not
  parsable, or the duration is missing, not coercible to an integer, or coerced to an
  integer outside the signed 64 bits of the column. When the start time parses, the title
  is storable and the duration coerces to an integer within 64 bits, the quiz is stored
  with that integer as its duration, whatever its sign. Every stored quiz has as duration
  the integer that \<^verbatim>\<open>int\<close> gives for the payload's \<^verbatim>\<open>durationMinutes\<close>.
\<close>

theorem create_quiz_validation:
  "(role u = ''teacher''
    \<and> (\<not> (\<exists>s st. map_of payload ''startTime'' = Some (JStr s)
                  \<and> fromisoformat lib (replace_Z s) = Some st)
       \<or> \<not> (\<exists>dm dur. map_of payload ''durationMinutes'' = Some dm \<and> py_int lib dm = Some dur
                       \<and> in_int64 dur))
    \<longrightarrow> manage_quizzes_POST lib d u (JObj payload) = (Inl ValidationError, d))
   \<and> (role u = ''teacher''
      \<and> map_of payload ''startTime'' = Some (JStr s) \<and> fromisoformat lib (replace_Z s) = Some st
      \<and> map_of payload ''title'' = Some t \<and> storable_scalar t
      \<and> map_of payload ''durationMinutes'' = Some dm \<and> py_int lib dm = Some dur
      \<and> in_int64 dur
      \<longrightarrow> (\<exists>ttl. manage_quizzes_POST lib d u (JObj payload)
                  = (Inr (JObj [(''id'', JInt (int (fresh_id (map quiz_pk (quizzes d))))),
                                (''title'', JStr ttl)]),
                     d\<lparr>quizzes := quizzes d @
                          [\<lparr>quiz_pk = fresh_id (map quiz_pk (quizzes d)), title = ttl,
                            start_time = st, duration_minutes = dur, teacher_id = uid u\<rparr>]\<rparr>)
                \<and> (\<forall>x. t = JStr x \<longrightarrow> ttl = x)))
   \<and> (manage_quizzes_POST lib d u data = (Inr resp, d')
      \<longrightarrow> (\<exists>qz dm. d' = d\<lparr>quizzes := quizzes d @ [qz]\<rparr>
                   \<and> py_int lib dm = Some (duration_minutes qz)
                   \<and> in_int64 (duration_minutes qz)
                   \<and> (\<exists>kvs. data = JObj kvs \<and> map_of kvs ''durationMinutes'' = Some dm)))"
proof (intro conjI impI)
  assume "role u = ''teacher''
    \<and> (\<not> (\<exists>s st. map_of payload ''startTime'' = Some (JStr s)
                  \<and> fromisoformat lib (replace_Z s) = Some st)
       \<or> \<not> (\<exists>dm dur. map_of payload ''durationMinutes'' = Some dm \<and> py_int lib dm = Some dur
                       \<and> in_int64 dur))"
  then show "manage_quizzes_POST lib d u (JObj payload) = (Inl ValidationError, d)"
    by (auto simp: manage_quizzes_POST_def split: option.splits json.splits)
next
  assume h: "role u = ''teacher''
      \<and> map_of payload ''startTime'' = Some (JStr s) \<and> fromisoformat lib (replace_Z s) = Some st
      \<and> map_of payload ''title'' = Some t \<and> storable_scalar t
      \<and> map_of payload ''durationMinutes'' = Some dm \<and> py_int lib dm = Some dur
      \<and> in_int64 dur"
  then obtain ttl where ttl: "bind_text t = Some ttl"
    using storable_text [of t] by auto
  from h ttl have "manage_quizzes_POST lib d u (JObj payload)
                  = (Inr (JObj [(''id'', JInt (int (fresh_id (map quiz_pk (quizzes d))))),
                                (''title'', JStr ttl)]),
                     d\<lparr>quizzes := quizzes d @
                          [\<lparr>quiz_pk = fresh_id (map quiz_pk (quizzes d)), title = ttl,
                            start_time = st, duration_minutes = dur, teacher_id = uid u\<rparr>]\<rparr>)"
    by (simp add: manage_quizzes_POST_def Let_def)
  moreover from ttl have "\<forall>x. t = JStr x \<longrightarrow> ttl = x" by auto
  ultimately show "\<exists>ttl. manage_quizzes_POST lib d u (JObj payload)
                  = (Inr (JObj [(''id'', JInt (int (fresh_id (map quiz_pk (quizzes d))))),
                                (''title'', JStr ttl)]),
                     d\<lparr>quizzes := quizzes d @
                          [\<lparr>quiz_pk = fresh_id (map quiz_pk (quizzes d)), title = ttl,
                            start_time = st, duration_minutes = dur, teacher_id = uid u\<rparr>]\<rparr>)
                \<and> (\<forall>x. t = JStr x \<longrightarrow> ttl = x)"
    by blast
next
  assume "manage_quizzes_POST lib d u data = (Inr resp, d')"
  then show "\<exists>qz dm. d' = d\<lparr>quizzes := quizzes d @ [qz]\<rparr>
                   \<and> py_int lib dm = Some (duration_minutes qz)
                   \<and> in_int64 (duration_minutes qz)
                   \<and> (\<exists>kvs. data = JObj kvs \<and> map_of kvs ''durationMinutes'' = Some dm)"
    by (auto simp: manage_quizzes_POST_def Let_def split: if_splits option.splits json.splits)
qed

theorem create_quiz_validation_witness:
  "manage_quizzes_POST ex_lib empty_db ex_teacher
     (JObj [(''title'', JStr ''Algebra''), (''startTime'', JStr ''tomorrow''),
            (''durationMinutes'', JInt 30)])
   = (Inl ValidationError, empty_db)
   \<and> manage_quizzes_POST ex_lib empty_db ex_teacher
     (JObj [(''title'', JStr ''Algebra''), (''startTime'', JStr ''2030-01-01T09:00:00Z''),
            (''durationMinutes'', JStr ''soon'')])
   = (Inl ValidationError, empty_db)
   \<and> manage_quizzes_POST ex_lib empty_db ex_teacher
     (JObj [(''title'', JStr ''Algebra''), (''startTime'', JStr ''2030-01-01T09:00:00Z''),
            (''durationMinutes'', JInt 9223372036854775808)])
   = (Inl ValidationError, empty_db)
   \<and> manage_quizzes_POST ex_lib empty_db ex_teacher
     (JObj [(''title'', JStr ''Algebra''), (''startTime'', JStr ''2030-01-01T09:00:00Z''),
            (''durationMinutes'', JInt (- 5))])
   = (Inr (JObj [(''id'', JInt 1), (''title'', JStr ''Algebra'')]),
      empty_db\<lparr>quizzes := [\<lparr>quiz_pk = 1, title = ''Algebra'', start_time = 1000,
                              duration_minutes = - 5, teacher_id = 2\<rparr>]\<rparr>)"
proof -
  let ?p1 = "[(''title'', JStr ''Algebra''), (''startTime'', JStr ''tomorrow''),
              (''durationMinutes'', JInt 30)]"
  let ?p2 = "[(''title'', JStr ''Algebra''), (''startTime'', JStr ''2030-01-01T09:00:00Z''),
              (''durationMinutes'', JStr ''soon'')]"
  let ?p3 = "[(''title'', JStr ''Algebra''), (''startTime'', JStr ''2030-01-01T09:00:00Z''),
              (''durationMinutes'', JInt (- 5))]"
  let ?p4 = "[(''title'', JStr ''Algebra''), (''startTime'', JStr ''2030-01-01T09:00:00Z''),
              (''durationMinutes'', JInt 9223372036854775808)]"
  have r: "role ex_teacher = ''teacher''" by (simp add: ex_teacher_def)
  have h1: "\<not> (\<exists>s st. map_of ?p1 ''startTime'' = Some (JStr s)
                  \<and> fromisoformat ex_lib (replace_Z s) = Some st)"
    by (simp add: ex_lib_def replace_Z_def)
  have h2: "\<not> (\<exists>dm dur. map_of ?p2 ''durationMinutes'' = Some dm \<and> py_int ex_lib dm = Some dur
                  \<and> in_int64 dur)"
    by (simp add: ex_lib_def)
  have h4: "\<not> (\<exists>dm dur. map_of ?p4 ''durationMinutes'' = Some dm \<and> py_int ex_lib dm = Some dur
                  \<and> in_int64 dur)"
    by (simp add: in_int64_def)
  have h3: "map_of ?p3 ''startTime'' = Some (JStr ''2030-01-01T09:00:00Z'')
            \<and> fromisoformat ex_lib (replace_Z ''2030-01-01T09:00:00Z'') = Some 1000
            \<and> map_of ?p3 ''title'' = Some (JStr ''Algebra'')
            \<and> storable_scalar (JStr ''Algebra'')
            \<and> map_of ?p3 ''durationMinutes'' = Some (JInt (- 5))
            \<and> py_int ex_lib (JInt (- 5)) = Some (- 5)
            \<and> in_int64 (- 5)"
    by (simp add: ex_lib_def replace_Z_def storable_scalar_def in_int64_def)
  from create_quiz_validation [of ex_teacher ?p1 ex_lib empty_db] r h1
  have a: "manage_quizzes_POST ex_lib empty_db ex_teacher (JObj ?p1) = (Inl ValidationError, empty_db)"
    by blast
  from create_quiz_validation [of ex_teacher ?p2 ex_lib empty_db] r h2
  have b: "manage_quizzes_POST ex_lib empty_db ex_teacher (JObj ?p2) = (Inl ValidationError, empty_db)"
    by blast
  from create_quiz_validation [of ex_teacher ?p4 ex_lib empty_db] r h4
  have b': "manage_quizzes_POST ex_lib empty_db ex_teacher (JObj ?p4) = (Inl ValidationError, empty_db)"
    by blast
  from create_quiz_validation
         [of ex_teacher ?p3 ex_lib empty_db "''2030-01-01T09:00:00Z''" 1000 "JStr ''Algebra''"
             "JInt (- 5)" "- 5"] r h3
  have "\<exists>ttl. manage_quizzes_POST ex_lib empty_db ex_teacher (JObj ?p3)
          = (Inr (JObj [(''id'', JInt (int (fresh_id (map quiz_pk (quizzes empty_db))))),
                        (''title'', JStr ttl)]),
             empty_db\<lparr>quizzes := quizzes empty_db @
                  [\<lparr>quiz_pk = fresh_id (map quiz_pk (quizzes empty_db)), title = ttl,
                    start_time = 1000, duration_minutes = - 5, teacher_id = uid ex_teacher\<rparr>]\<rparr>)
          \<and> (\<forall>x. JStr ''Algebra'' = JStr x \<longrightarrow> ttl = x)"
    by blast
  then have c: "manage_quizzes_POST ex_lib empty_db ex_teacher (JObj ?p3)
     = (Inr (JObj [(''id'', JInt 1), (''title'', JStr ''Algebra'')]),
        empty_db\<lparr>quizzes := [\<lparr>quiz_pk = 1, title = ''Algebra'', start_time = 1000,
                              duration_minutes = - 5, teacher_id = 2\<rparr>]\<rparr>)"
    by (auto simp: empty_db_def fresh_id_def ex_teacher_def)
  from a b b' c show ?thesis by blast
qed

subsection \<open>Importing questions\<close>

lemma csv_loop_result:
  "csv_loop rows pending
   = (if list_all row_passes rows then Inr (pending @ map row_pending rows)
      else Inl ValidationError)"
proof (induction rows arbitrary: pending)
  case Nil
  show ?case by simp
next
  case (Cons r rows)
  show ?case
  proof (cases "row_passes r")
    case True
    then obtain raw where raw: "r ''correct_answer'' = Some (Some raw)"
      by (auto simp: row_passes_def present_def split: option.splits)
    with True have "csv_loop (r # rows) pending = csv_loop rows (pending @ [row_pending r])"
      by (auto simp: row_passes_def field_value_def row_pending_def Let_def)
    with True show ?thesis by (simp add: Cons.IH)
  next
    case False
    then have "csv_loop (r # rows) pending = Inl ValidationError"
      by (auto simp: row_passes_def present_def field_value_def split: option.splits)
    with False show ?thesis by simp
  qed
qed

lemma present_cell: "(\<exists>y. bind_text (cell r key) = Some y) = present r key"
  by (simp add: cell_def present_def split: option.splits)

lemma present_key: "present r key \<Longrightarrow> \<exists>y. r key = Some y"
  by (simp add: present_def split: option.splits)

lemma cell_value: "present r key \<Longrightarrow> bind_text (cell r key) = Some (field_value r key)"
  by (simp add: cell_def present_def field_value_def split: option.splits)

lemma row_valid_iff: "row_valid r = (row_passes r \<and> storable (row_pending r))"
  unfolding row_valid_def row_passes_def storable_def row_pending_def csv_columns_def
  using present_key [of r]
  by (simp add: present_cell) blast

lemma insert_questions_None:
  "(insert_questions d quiz_id ps = None) = (\<not> list_all storable ps)"
proof (induction ps arbitrary: d)
  case Nil
  show ?case by simp
next
  case (Cons p ps)
  show ?case
  proof (cases "storable p")
    case True
    then obtain d1 where "insert_question d quiz_id p = Some d1"
      by (simp add: insert_question_def storable_def)
    with True Cons.IH [of d1] show ?thesis by simp
  next
    case False
    then have "insert_question d quiz_id p = None"
      by (simp add: insert_question_def storable_def)
    with False show ?thesis by simp
  qed
qed

lemma insert_questions_Some:
  "insert_questions d quiz_id ps = Some d' \<Longrightarrow>
   \<exists>new. d' = d\<lparr>questions := questions d @ new\<rparr>
         \<and> map question_columns new = map (pending_columns quiz_id) ps"
proof (induction ps arbitrary: d)
  case Nil
  then show ?case by simp
next
  case (Cons p ps)
  then obtain d1 where d1: "insert_question d quiz_id p = Some d1"
    and rest: "insert_questions d1 quiz_id ps = Some d'"
    by (auto split: option.splits)
  from d1 obtain q where q: "d1 = d\<lparr>questions := questions d @ [q]\<rparr>"
    and qc: "question_columns q = pending_columns quiz_id p"
    by (auto simp: insert_question_def question_columns_def pending_columns_def
        split: if_splits)
  from Cons.IH [OF rest] obtain new where
    new: "d' = d1\<lparr>questions := questions d1 @ new\<rparr>"
    and nc: "map question_columns new = map (pending_columns quiz_id) ps"
    by blast
  from q new have "d' = d\<lparr>questions := questions d @ (q # new)\<rparr>" by simp
  moreover from qc nc have "map question_columns (q # new) = map (pending_columns quiz_id) (p # ps)"
    by simp
  ultimately show ?case by blast
qed

lemma pending_columns_row:
  "row_valid r \<Longrightarrow> pending_columns quiz_id (row_pending r) = row_columns quiz_id r"
  unfolding row_valid_def pending_columns_def row_pending_def row_columns_def csv_columns_def
  by (simp add: cell_value)

lemma rows_valid_iff:
  "list_all row_valid rows
   = (list_all row_passes rows \<and> list_all storable (map row_pending rows))"
  by (induction rows) (auto simp: row_valid_iff)

lemma endswith_nonempty: "endswith s ''.csv'' \<Longrightarrow> s \<noteq> []"
  by (auto simp: endswith_def)

text \<open>
  Claim C6. When the quiz's owner uploads a CSV file, the import is all or nothing. If
  every row has the six columns and a correct answer that is one of A to D after
  upper-casing, every row is appended to the question table, in order, with the quiz's
  id, the row's texts and the upper-cased correct key, and the response counts the rows.
  Otherwise the response is the validation error and the stored state is unchanged, so
  that no question of the file is committed.
\<close>

theorem bulk_import_all_or_nothing:
  "role u = ''teacher'' \<and> get_quiz d quiz_id = Some qz \<and> teacher_id qz = uid u
   \<and> endswith (filename f) ''.csv'' \<and> content f = Some rows
   \<longrightarrow> (if list_all row_valid rows
        then \<exists>new. add_questions_csv d u quiz_id (Some f)
                     = (Inr (JObj [(''message'',
                                    JStr (''Successfully added '' @ py_str (length rows)
                                          @ '' questions.''))]),
                        d\<lparr>questions := questions d @ new\<rparr>)
                   \<and> map question_columns new = map (row_columns quiz_id) rows
        else add_questions_csv d u quiz_id (Some f) = (Inl ValidationError, d))"
proof
  assume h: "role u = ''teacher'' \<and> get_quiz d quiz_id = Some qz \<and> teacher_id qz = uid u
   \<and> endswith (filename f) ''.csv'' \<and> content f = Some rows"
  then have pk: "quiz_pk qz = quiz_id" by (auto dest: get_quiz_pk)
  from h have ne: "filename f \<noteq> []" by (auto dest: endswith_nonempty)
  have run: "add_questions_csv d u quiz_id (Some f)
             = (case csv_loop rows [] of
                  Inl e \<Rightarrow> (Inl e, d)
                | Inr pending \<Rightarrow>
                    (case insert_questions d quiz_id pending of
                       None \<Rightarrow> (Inl ValidationError, d)
                     | Some d' \<Rightarrow>
                         (Inr (JObj [(''message'',
                                 JStr (''Successfully added '' @ py_str (length pending)
                                       @ '' questions.''))]),
                          d')))"
    using h pk ne by (simp add: add_questions_csv_def cong: sum.case_cong option.case_cong)
  show "if list_all row_valid rows
        then \<exists>new. add_questions_csv d u quiz_id (Some f)
                     = (Inr (JObj [(''message'',
                                    JStr (''Successfully added '' @ py_str (length rows)
                                          @ '' questions.''))]),
                        d\<lparr>questions := questions d @ new\<rparr>)
                   \<and> map question_columns new = map (row_columns quiz_id) rows
        else add_questions_csv d u quiz_id (Some f) = (Inl ValidationError, d)"
  proof (cases "list_all row_valid rows")
    case True
    then have p: "list_all row_passes rows" and st: "list_all storable (map row_pending rows)"
      by (simp_all add: rows_valid_iff)
    from p have loop: "csv_loop rows [] = Inr (map row_pending rows)"
      by (simp add: csv_loop_result)
    from st obtain d' where ins: "insert_questions d quiz_id (map row_pending rows) = Some d'"
      using insert_questions_None [of d quiz_id "map row_pending rows"] by auto
    from insert_questions_Some [OF ins] obtain new where
      d': "d' = d\<lparr>questions := questions d @ new\<rparr>"
      and cols: "map question_columns new
                 = map (pending_columns quiz_id) (map row_pending rows)"
      by blast
    from True have "map (pending_columns quiz_id) (map row_pending rows)
                    = map (row_columns quiz_id) rows"
      by (simp add: list_all_iff pending_columns_row)
    with cols have "map question_columns new = map (row_columns quiz_id) rows" by simp
    moreover from run loop ins d' have "add_questions_csv d u quiz_id (Some f)
                     = (Inr (JObj [(''message'',
                                    JStr (''Successfully added '' @ py_str (length rows)
                                          @ '' questions.''))]),
                        d\<lparr>questions := questions d @ new\<rparr>)"
      by simp
    ultimately show ?thesis using True by auto
  next
    case False
    show ?thesis
    proof (cases "list_all row_passes rows")
      case True
      with False have "\<not> list_all storable (map row_pending rows)"
        by (simp add: rows_valid_iff)
      then have "insert_questions d quiz_id (map row_pending rows) = None"
        by (simp add: insert_questions_None)
      with True run False show ?thesis by (simp add: csv_loop_result)
    next
      case np: False
      with run False show ?thesis by (simp add: csv_loop_result)
    qed
  qed
qed

theorem bulk_import_all_or_nothing_witness:
  "add_questions_csv ex_db ex_teacher 1 (Some (ex_upload [ex_row ''Q1'' ''A'', ex_row ''Q2'' ''E'']))
   = (Inl ValidationError, ex_db)
   \<and> (\<exists>new. add_questions_csv ex_db ex_teacher 1
                (Some (ex_upload [ex_row ''Q1'' ''b'', ex_row ''Q2'' ''D'']))
              = (Inr (JObj [(''message'', JStr ''Successfully added 2 questions.'')]),
                 ex_db\<lparr>questions := questions ex_db @ new\<rparr>)
            \<and> map question_columns new
              = [(1, ''Q1'', ''w'', ''x'', ''y'', ''z'', ''B''),
                 (1, ''Q2'', ''w'', ''x'', ''y'', ''z'', ''D'')])"
proof -
  have h: "role ex_teacher = ''teacher'' \<and> get_quiz ex_db 1 = Some ex_quiz
           \<and> teacher_id ex_quiz = uid ex_teacher
           \<and> endswith (filename (ex_upload rows)) ''.csv''
           \<and> content (ex_upload rows) = Some rows" for rows
    by (simp add: ex_teacher_def ex_db_def ex_quiz_def get_quiz_def ex_upload_def endswith_def)
  have up: "upper ''A'' = ''A''" "upper ''E'' = ''E''" "upper ''b'' = ''B''" "upper ''D'' = ''D''"
    by (simp_all add: upper_def upper_char_def)
  have bad: "\<not> list_all row_valid [ex_row ''Q1'' ''A'', ex_row ''Q2'' ''E'']"
    by (simp add: row_valid_def ex_row_def field_value_def up)
  have good: "list_all row_valid [ex_row ''Q1'' ''b'', ex_row ''Q2'' ''D'']"
    by (simp add: row_valid_def ex_row_def field_value_def present_def csv_columns_def up)
  have cols: "map (row_columns 1) [ex_row ''Q1'' ''b'', ex_row ''Q2'' ''D'']
              = [(1, ''Q1'', ''w'', ''x'', ''y'', ''z'', ''B''),
                 (1, ''Q2'', ''w'', ''x'', ''y'', ''z'', ''D'')]"
    by (simp add: row_columns_def ex_row_def field_value_def up)
  have n: "py_str (length [ex_row ''Q1'' ''b'', ex_row ''Q2'' ''D'']) = ''2''"
    by (simp add: py_str.simps digit_char_def)
  note bad_run = bulk_import_all_or_nothing
         [of ex_teacher ex_db 1 ex_quiz "ex_upload [ex_row ''Q1'' ''A'', ex_row ''Q2'' ''E'']"
             "[ex_row ''Q1'' ''A'', ex_row ''Q2'' ''E'']", THEN mp, OF h]
  note good_run = bulk_import_all_or_nothing
         [of ex_teacher ex_db 1 ex_quiz "ex_upload [ex_row ''Q1'' ''b'', ex_row ''Q2'' ''D'']"
             "[ex_row ''Q1'' ''b'', ex_row ''Q2'' ''D'']", THEN mp, OF h]
  from bad_run [unfolded if_not_P [OF bad]]
  have a: "add_questions_csv ex_db ex_teacher 1
             (Some (ex_upload [ex_row ''Q1'' ''A'', ex_row ''Q2'' ''E'']))
           = (Inl ValidationError, ex_db)" .
  from good_run [unfolded if_P [OF good]]
  have "\<exists>new. add_questions_csv ex_db ex_teacher 1
                (Some (ex_upload [ex_row ''Q1'' ''b'', ex_row ''Q2'' ''D'']))
              = (Inr (JObj [(''message'',
                    JStr (''Successfully added ''
                          @ py_str (length [ex_row ''Q1'' ''b'', ex_row ''Q2'' ''D''])
                          @ '' questions.''))]),
                 ex_db\<lparr>questions := questions ex_db @ new\<rparr>)
            \<and> map question_columns new
              = map (row_columns 1) [ex_row ''Q1'' ''b'', ex_row ''Q2'' ''D'']" .
  then have b: "\<exists>new. add_questions_csv ex_db ex_teacher 1
                (Some (ex_upload [ex_row ''Q1'' ''b'', ex_row ''Q2'' ''D'']))
              = (Inr (JObj [(''message'', JStr ''Successfully added 2 questions.'')]),
                 ex_db\<lparr>questions := questions ex_db @ new\<rparr>)
            \<and> map question_columns new
              = [(1, ''Q1'', ''w'', ''x'', ''y'', ''z'', ''B''),
                 (1, ''Q2'', ''w'', ''x'', ''y'', ''z'', ''D'')]"
    unfolding cols n by simp
  from a b show ?thesis by blast
qed

end
